theory Spec2Isabelle
  imports Main "HOL-Library.Multiset" "HOL-Library.AList"
begin

section \<open>JavaScript values\<close>

text \<open>
  The program of \<^verbatim>\<open>src/app.js\<close> is JavaScript. What the text-generation gateway
  returns is decoded by \<^verbatim>\<open>JSON.parse\<close> into an arbitrary JSON value, and the program
  reads properties of it without checking its shape, so gateway data is modelled by the
  values JavaScript can hold there. Numbers are the integers (fractions, NaN and the
  infinities are not represented; where a coercion yields NaN the model says \<open>None\<close>).
  A string is the list of the units that \<^verbatim>\<open>length\<close> and \<^verbatim>\<open>substring\<close> count.
  An object is the list of its own properties; an array carries its elements and the
  named properties stored on it afterwards (none straight out of \<^verbatim>\<open>JSON.parse\<close>).
\<close>

datatype jsval =
    Undefined
  | Null
  | Bool bool
  | Num int
  | Str string
  | Arr "jsval list" "(string \<times> jsval) list"
  | Obj "(string \<times> jsval) list"

datatype js_error =
    TypeError
  | SyntaxError
  | Gateway_failure
  | Expected_50
  | Missing_fields nat
  | Criteria_not_6
  | Invalid_structure

text \<open>\<^verbatim>\<open>v == null\<close>: the two values whose property reads throw a TypeError.\<close>

definition nullish :: "jsval \<Rightarrow> bool" where
  "nullish v = (v = Undefined \<or> v = Null)"

text \<open>\<^verbatim>\<open>!v\<close>.\<close>

definition falsy :: "jsval \<Rightarrow> bool" where
  "falsy v = (v = Undefined \<or> v = Null \<or> v = Bool False \<or> v = Num 0 \<or> v = Str [])"

text \<open>
  \<^verbatim>\<open>v.k\<close> for the property names the program reads (\<^verbatim>\<open>length\<close> and named
  properties; it never reads an index of a string). A property that is absent reads as
  \<^verbatim>\<open>undefined\<close>; reading from \<^verbatim>\<open>null\<close> or \<^verbatim>\<open>undefined\<close> throws.
\<close>

definition lookup :: "(string \<times> jsval) list \<Rightarrow> string \<Rightarrow> jsval" where
  "lookup props k = (case map_of props k of None \<Rightarrow> Undefined | Some v \<Rightarrow> v)"

fun get :: "jsval \<Rightarrow> string \<Rightarrow> js_error + jsval" where
  "get Undefined k = Inl TypeError"
| "get Null k = Inl TypeError"
| "get (Bool b) k = Inr Undefined"
| "get (Num n) k = Inr Undefined"
| "get (Str s) k = Inr (if k = ''length'' then Num (int (length s)) else Undefined)"
| "get (Arr xs props) k = Inr (if k = ''length'' then Num (int (length xs)) else lookup props k)"
| "get (Obj props) k = Inr (lookup props k)"

text \<open>\<^verbatim>\<open>v.k\<close> on a value already known not to be \<^verbatim>\<open>null\<close> or \<^verbatim>\<open>undefined\<close>.\<close>

definition read :: "jsval \<Rightarrow> string \<Rightarrow> jsval" where
  "read v k = (case get v k of Inl e \<Rightarrow> Undefined | Inr x \<Rightarrow> x)"

text \<open>
  \<^verbatim>\<open>v.k = x\<close> in sloppy mode (the file has no \<^verbatim>\<open>'use strict'\<close>): a TypeError on
  \<^verbatim>\<open>null\<close> and \<^verbatim>\<open>undefined\<close>, silently nothing on a primitive.
\<close>

fun put :: "jsval \<Rightarrow> string \<Rightarrow> jsval \<Rightarrow> js_error + jsval" where
  "put Undefined k x = Inl TypeError"
| "put Null k x = Inl TypeError"
| "put (Arr xs props) k x = Inr (Arr xs (AList.update k x props))"
| "put (Obj props) k x = Inr (Obj (AList.update k x props))"
| "put v k x = Inr v"

subsection \<open>Coercions\<close>

text \<open>An integer in decimal, as JavaScript prints a number that is one (of fewer than 22 digits).\<close>

definition digit_of :: "nat \<Rightarrow> char" where
  "digit_of n = ''0123456789'' ! n"

fun show_nat :: "nat \<Rightarrow> string" where
  "show_nat n = (if n < 10 then [digit_of n] else show_nat (n div 10) @ [digit_of (n mod 10)])"

declare show_nat.simps [simp del]

definition show_int :: "int \<Rightarrow> string" where
  "show_int i = (if i < 0 then CHR ''-'' # show_nat (nat (- i)) else show_nat (nat i))"

fun join_with :: "string \<Rightarrow> string list \<Rightarrow> string" where
  "join_with sep [] = []"
| "join_with sep [s] = s"
| "join_with sep (s # t # ss) = s @ sep @ join_with sep (t # ss)"

text \<open>
  \<^verbatim>\<open>String(v)\<close>, which is also the property key \<^verbatim>\<open>obj[v]\<close> uses. An array prints its
  elements separated by commas, \<^verbatim>\<open>null\<close> and \<^verbatim>\<open>undefined\<close> elements as nothing.
\<close>

fun ToString :: "jsval \<Rightarrow> string" where
  "ToString Undefined = ''undefined''"
| "ToString Null = ''null''"
| "ToString (Bool b) = (if b then ''true'' else ''false'')"
| "ToString (Num n) = show_int n"
| "ToString (Str s) = s"
| "ToString (Arr xs props) =
     join_with '','' (map (\<lambda>x. if x = Undefined \<or> x = Null then [] else ToString x) xs)"
| "ToString (Obj props) = ''[object Object]''"

definition digit_table :: "(char \<times> int) list" where
  "digit_table = zip ''0123456789'' [0, 1, 2, 3, 4, 5, 6, 7, 8, 9]"

text \<open>The value of a run of decimal digits read after the value \<open>a\<close>, if it is one.\<close>

fun digits_value :: "int \<Rightarrow> string \<Rightarrow> int option" where
  "digits_value a [] = Some a"
| "digits_value a (c # cs) =
     (case map_of digit_table c of
        None \<Rightarrow> None
      | Some d \<Rightarrow> digits_value (10 * a + d) cs)"

text \<open>
  \<^verbatim>\<open>Number(s)\<close> for a string: the empty string is 0, a run of decimal digits with an
  optional sign is its value. Every other string is NaN here; the notations JavaScript
  also accepts (surrounding blanks, fractions, exponents, hexadecimal, \<^verbatim>\<open>Infinity\<close>) are
  outside the integers of this model.
\<close>

definition StringToNumber :: "string \<Rightarrow> int option" where
  "StringToNumber s =
     (case s of
        [] \<Rightarrow> Some 0
      | c # cs \<Rightarrow>
          if (c = CHR ''-'' \<or> c = CHR ''+'') \<and> cs \<noteq> []
          then map_option (\<lambda>n. if c = CHR ''-'' then - n else n) (digits_value 0 cs)
          else digits_value 0 s)"

text \<open>\<^verbatim>\<open>Number(v)\<close>; \<open>None\<close> is NaN.\<close>

definition ToNumber :: "jsval \<Rightarrow> int option" where
  "ToNumber v =
     (case v of
        Undefined \<Rightarrow> None
      | Null \<Rightarrow> Some 0
      | Bool b \<Rightarrow> Some (if b then 1 else 0)
      | Num n \<Rightarrow> Some n
      | Str s \<Rightarrow> StringToNumber s
      | Arr xs props \<Rightarrow> StringToNumber (ToString v)
      | Obj props \<Rightarrow> None)"

text \<open>\<^verbatim>\<open>xs[i]\<close> for a computed number \<open>i\<close>: \<^verbatim>\<open>undefined\<close> outside the array.\<close>

definition at_index :: "'a list \<Rightarrow> int option \<Rightarrow> 'a option" where
  "at_index xs i =
     (case i of
        None \<Rightarrow> None
      | Some j \<Rightarrow> if 0 \<le> j \<and> j < int (length xs) then Some (xs ! nat j) else None)"

text \<open>
  \<^verbatim>\<open>Array.prototype.sort(cmp)\<close>. The language requires the sort to be stable, and for a
  consistent comparator a stable sort has one result; it is computed here by insertion
  from the right, an element staying in front of the later ones it does not compare
  greater than.
\<close>

fun insert_by :: "('a \<Rightarrow> 'a \<Rightarrow> int) \<Rightarrow> 'a \<Rightarrow> 'a list \<Rightarrow> 'a list" where
  "insert_by cmp x [] = [x]"
| "insert_by cmp x (y # ys) = (if cmp x y \<le> 0 then x # y # ys else y # insert_by cmp x ys)"

definition array_sort :: "('a \<Rightarrow> 'a \<Rightarrow> int) \<Rightarrow> 'a list \<Rightarrow> 'a list" where
  "array_sort cmp xs = foldr (insert_by cmp) xs []"

section \<open>Data model\<close>

text \<open>
  A document of the input batch, a pair of texts; \<open>None\<close> is a field that is missing.
\<close>

record paper =
  title :: "string option"
  abstract :: "string option"

definition opt_str :: "string option \<Rightarrow> jsval" where
  "opt_str s = (case s of None \<Rightarrow> Undefined | Some t \<Rightarrow> Str t)"

text \<open>One entry of a document's evaluation, as \<^verbatim>\<open>agent4_evaluatePapers\<close> stores it.\<close>

record eval =
  criterion_id :: jsval
  response :: jsval
  reasoning :: jsval

text \<open>One element of \<^verbatim>\<open>state.evaluationResults\<close>.\<close>

record paperEval =
  pe_paper_id :: jsval
  pe_title :: jsval
  evaluations :: "eval list"

text \<open>One element of \<^verbatim>\<open>scoredPapers\<close> in \<^verbatim>\<open>agent6_selectTopPapers\<close>.\<close>

record scored =
  sp_paper_id :: jsval
  sp_title :: jsval
  yes_count :: nat
  maybe_count :: nat
  no_count :: nat
  eligibility_score :: nat
  is_eligible :: bool
  sp_evaluations :: "eval list"
  original_index :: "int option"

text \<open>A scored paper joined with its document and metadata.\<close>

record selected =
  sel_scored :: scored
  original_paper :: "paper option"
  metadata :: jsval

text \<open>A back-reference from a criterion's statistic to a document.\<close>

record paper_ref =
  ref_paper_id :: jsval
  ref_title :: jsval
  ref_reasoning :: jsval

text \<open>One value of \<^verbatim>\<open>state.criteriaStats\<close>.\<close>

record stat =
  st_criterion :: jsval
  st_description :: jsval
  st_yes_count :: nat
  st_maybe_count :: nat
  st_no_count :: nat
  yes_papers :: "paper_ref list"
  maybe_papers :: "paper_ref list"
  no_papers :: "paper_ref list"

text \<open>
  The text-generation gateway. \<^verbatim>\<open>model.invoke\<close> either throws, or returns content on
  which \<^verbatim>\<open>JSON.parse\<close> throws, or returns content that decodes to a value. A run asks
  once per document for metadata, once for the criteria and once per document for an
  evaluation, so a gateway is any function of these requests.
\<close>

datatype request = Extract nat | Generate | Evaluate nat

datatype reply = Invoke_failed | Not_json | Json jsval

type_synonym gateway = "request \<Rightarrow> reply"

text \<open>
  \<^verbatim>\<open>class WorkflowState\<close>. \<open>criteriaStats\<close> is the object as the list of its own
  properties, keyed by \<^verbatim>\<open>String(id)\<close>; keys that name a property of \<^verbatim>\<open>Object.prototype\<close>
  are not modelled. \<open>errors\<close> holds each message \<^verbatim>\<open>Agent n Error: ...\<close> as the agent's
  number and the error. \<open>gateway_calls\<close> is not a field of the class: it records the
  calls of \<^verbatim>\<open>model.invoke\<close> made so far.
\<close>

record wstate =
  inputPapers :: "paper list"
  extractedMetadata :: "jsval list"
  generatedCriteria :: "jsval list"
  evaluationResults :: "paperEval list"
  criteriaStats :: "(string \<times> stat) list"
  finalSelectedPapers :: "selected list"
  currentStep :: string
  errors :: "(nat \<times> js_error) list"
  gateway_calls :: "request list"

definition WorkflowState :: wstate where
  "WorkflowState =
     \<lparr> inputPapers = [], extractedMetadata = [], generatedCriteria = [],
       evaluationResults = [], criteriaStats = [], finalSelectedPapers = [],
       currentStep = [], errors = [], gateway_calls = [] \<rparr>"

text \<open>An agent returns the state, or throws after its \<^verbatim>\<open>catch\<close> has pushed the message.\<close>

datatype outcome = Returned wstate | Threw js_error wstate

definition fail :: "nat \<Rightarrow> js_error \<Rightarrow> wstate \<Rightarrow> outcome" where
  "fail agent e state = Threw e (state\<lparr>errors := errors state @ [(agent, e)]\<rparr>)"

definition called :: "request list \<Rightarrow> wstate \<Rightarrow> wstate" where
  "called calls state = state\<lparr>gateway_calls := gateway_calls state @ calls\<rparr>"

section \<open>Agent 6: scoring and selection\<close>

text \<open>The inner \<^verbatim>\<open>forEach\<close> with its \<^verbatim>\<open>switch\<close> on \<^verbatim>\<open>eval.response\<close>.\<close>

fun tally :: "eval list \<Rightarrow> nat \<times> nat \<times> nat \<Rightarrow> nat \<times> nat \<times> nat" where
  "tally [] c = c"
| "tally (e # es) (yesCount, maybeCount, noCount) =
     tally es
       (if response e = Str ''Yes'' then (yesCount + 1, maybeCount, noCount)
        else if response e = Str ''Maybe'' then (yesCount, maybeCount + 1, noCount)
        else if response e = Str ''No'' then (yesCount, maybeCount, noCount + 1)
        else (yesCount, maybeCount, noCount))"

text \<open>The \<^verbatim>\<open>if\<close> chain that sets \<^verbatim>\<open>eligibilityScore\<close> and \<^verbatim>\<open>isEligible\<close>.\<close>

definition tier :: "nat \<Rightarrow> nat \<Rightarrow> nat \<times> bool" where
  "tier yesCount maybeCount =
     (if yesCount = 6 then (1000, True)
      else if yesCount = 5 \<and> maybeCount = 1 then (900, True)
      else if yesCount = 4 \<and> maybeCount = 2 then (800, True)
      else if yesCount \<ge> 3 \<and> yesCount + maybeCount \<ge> 5 then (700, True)
      else (0, False))"

text \<open>The score after \<^verbatim>\<open>eligibilityScore += (yesCount * 10) + (maybeCount * 5)\<close>.\<close>

definition final_score :: "nat \<Rightarrow> nat \<Rightarrow> nat" where
  "final_score yesCount maybeCount =
     fst (tier yesCount maybeCount) + (yesCount * 10 + maybeCount * 5)"

text \<open>\<^verbatim>\<open>paperEval.paper_id - 1\<close>.\<close>

definition minus_one :: "jsval \<Rightarrow> int option" where
  "minus_one v = map_option (\<lambda>n. n - 1) (ToNumber v)"

definition score_paper :: "paperEval \<Rightarrow> scored" where
  "score_paper paperEval =
     (case tally (evaluations paperEval) (0, 0, 0) of
        (yesCount, maybeCount, noCount) \<Rightarrow>
          \<lparr> sp_paper_id = pe_paper_id paperEval,
            sp_title = pe_title paperEval,
            yes_count = yesCount,
            maybe_count = maybeCount,
            no_count = noCount,
            eligibility_score = final_score yesCount maybeCount,
            is_eligible = snd (tier yesCount maybeCount),
            sp_evaluations = evaluations paperEval,
            original_index = minus_one (pe_paper_id paperEval) \<rparr>)"

text \<open>The comparator \<^verbatim>\<open>(a, b) => b.eligibility_score - a.eligibility_score\<close>.\<close>

definition by_score :: "scored \<Rightarrow> scored \<Rightarrow> int" where
  "by_score a b = int (eligibility_score b) - int (eligibility_score a)"

text \<open>Sorting, filtering and slicing: lines 419 to 432.\<close>

definition select_top :: "scored list \<Rightarrow> scored list" where
  "select_top scoredPapers =
     (let sortedPapers = array_sort by_score scoredPapers;
          eligiblePapers = filter is_eligible sortedPapers
      in if length eligiblePapers \<ge> 10 then take 10 eligiblePapers
         else
           (let nonEligible = filter (\<lambda>p. \<not> is_eligible p) sortedPapers;
                needed = 10 - length eligiblePapers
            in eligiblePapers @ take needed nonEligible))"


text \<open>The \<^verbatim>\<open>map\<close> of lines 435 to 439.\<close>

definition join :: "wstate \<Rightarrow> scored \<Rightarrow> selected" where
  "join state p =
     \<lparr> sel_scored = p,
       original_paper = at_index (inputPapers state) (original_index p),
       metadata =
         (case at_index (extractedMetadata state) (original_index p) of
            None \<Rightarrow> Undefined
          | Some m \<Rightarrow> m) \<rparr>"

definition agent6_selectTopPapers :: "wstate \<Rightarrow> outcome" where
  "agent6_selectTopPapers state =
     Returned
       (state\<lparr>finalSelectedPapers :=
                 map (join state) (select_top (map score_paper (evaluationResults state))),
              currentStep := ''Top 10 Selected''\<rparr>)"

section \<open>Agent 1: input validation\<close>

text \<open>\<^verbatim>\<open>!paper.title || !paper.abstract\<close>: a field is missing or the empty string.\<close>

definition missing_fields :: "paper \<Rightarrow> bool" where
  "missing_fields p = (falsy (opt_str (title p)) \<or> falsy (opt_str (abstract p)))"

text \<open>The loop of lines 42 to 47; \<open>i\<close> is the position of the head of the list.\<close>

fun validate_papers :: "nat \<Rightarrow> paper list \<Rightarrow> js_error option" where
  "validate_papers i [] = None"
| "validate_papers i (p # ps) =
     (if missing_fields p then Some (Missing_fields (i + 1))
      else validate_papers (i + 1) ps)"

definition agent1_processInput :: "wstate \<Rightarrow> outcome" where
  "agent1_processInput state =
     (if length (inputPapers state) \<noteq> 50 then fail 1 Expected_50 state
      else case validate_papers 0 (inputPapers state) of
             Some e \<Rightarrow> fail 1 e state
           | None \<Rightarrow> Returned (state\<lparr>currentStep := ''Input Processed''\<rparr>))"

section \<open>Agent 2: metadata extraction\<close>

text \<open>
  The object pushed in the inner \<^verbatim>\<open>catch\<close>. \<^verbatim>\<open>paper.abstract.substring(0, 200)\<close> throws
  when the abstract is missing, and this \<^verbatim>\<open>catch\<close> block is covered by the outer
  \<^verbatim>\<open>try\<close> only.
\<close>

definition fallback_metadata :: "nat \<Rightarrow> paper \<Rightarrow> js_error + jsval" where
  "fallback_metadata i p =
     (case abstract p of
        None \<Rightarrow> Inl TypeError
      | Some a \<Rightarrow>
          Inr (Obj
            [(''paper_id'', Num (int i + 1)),
             (''original_index'', Num (int i)),
             (''title'', opt_str (title p)),
             (''abstract_summary'', Str (take 200 a)),
             (''research_domain'', Str ''Not specified''),
             (''methodology'', Str ''Not specified''),
             (''study_type'', Str ''Not specified''),
             (''main_findings'', Str ''Not specified''),
             (''keywords'', Arr [] []),
             (''authors'', Arr [] []),
             (''journal'', Str ''Not specified''),
             (''year'', Str ''Not specified'')]))"

text \<open>Lines 100 and 101.\<close>

definition attach_ids :: "nat \<Rightarrow> jsval \<Rightarrow> js_error + jsval" where
  "attach_ids i v =
     (case put v ''paper_id'' (Num (int i + 1)) of
        Inl e \<Rightarrow> Inl e
      | Inr m \<Rightarrow> put m ''original_index'' (Num (int i)))"

text \<open>One round of the loop, from the reply of \<^verbatim>\<open>model.invoke\<close> on.\<close>

definition extract_one :: "reply \<Rightarrow> nat \<Rightarrow> paper \<Rightarrow> js_error + jsval" where
  "extract_one r i p =
     (case r of
        Invoke_failed \<Rightarrow> Inl Gateway_failure
      | Not_json \<Rightarrow> fallback_metadata i p
      | Json v \<Rightarrow>
          (case attach_ids i v of
             Inl e \<Rightarrow> fallback_metadata i p
           | Inr m \<Rightarrow> Inr m))"

fun extract_loop :: "gateway \<Rightarrow> nat \<Rightarrow> paper list \<Rightarrow> request list \<times> (js_error + jsval list)" where
  "extract_loop gw i [] = ([], Inr [])"
| "extract_loop gw i (p # ps) =
     (case extract_one (gw (Extract i)) i p of
        Inl e \<Rightarrow> ([Extract i], Inl e)
      | Inr m \<Rightarrow>
          (case extract_loop gw (i + 1) ps of
             (calls, Inl e) \<Rightarrow> (Extract i # calls, Inl e)
           | (calls, Inr ms) \<Rightarrow> (Extract i # calls, Inr (m # ms))))"

definition agent2_extractMetadata :: "gateway \<Rightarrow> wstate \<Rightarrow> outcome" where
  "agent2_extractMetadata gw state =
     (case extract_loop gw 0 (inputPapers state) of
        (calls, Inl e) \<Rightarrow> fail 2 e (called calls state)
      | (calls, Inr ms) \<Rightarrow>
          Returned
            (called calls state
               \<lparr>extractedMetadata := ms, currentStep := ''Metadata Extracted''\<rparr>))"

section \<open>Agent 3: criteria generation\<close>

text \<open>
  \<^verbatim>\<open>paper.title\<close> in the summary throws on a metadata element that is \<^verbatim>\<open>null\<close>;
  \<^verbatim>\<open>JSON.parse\<close> and the check of line 185 throw into the outer \<^verbatim>\<open>catch\<close>.
\<close>

definition agent3_generateCriteria :: "gateway \<Rightarrow> wstate \<Rightarrow> outcome" where
  "agent3_generateCriteria gw state =
     (if list_ex nullish (extractedMetadata state) then fail 3 TypeError state
      else
        (case gw Generate of
           Invoke_failed \<Rightarrow> fail 3 Gateway_failure (called [Generate] state)
         | Not_json \<Rightarrow> fail 3 SyntaxError (called [Generate] state)
         | Json criteria \<Rightarrow>
             (case criteria of
                Arr cs props \<Rightarrow>
                  if length cs \<noteq> 6 then fail 3 Criteria_not_6 (called [Generate] state)
                  else
                    Returned
                      (called [Generate] state
                         \<lparr>generatedCriteria := cs, currentStep := ''Criteria Generated''\<rparr>)
              | _ \<Rightarrow> fail 3 Criteria_not_6 (called [Generate] state))))"

section \<open>Agent 4: evaluation\<close>

text \<open>\<^verbatim>\<open>['Yes', 'Maybe', 'No'].includes(r)\<close>.\<close>

definition valid_response :: "jsval \<Rightarrow> bool" where
  "valid_response r = (r = Str ''Yes'' \<or> r = Str ''Maybe'' \<or> r = Str ''No'')"

text \<open>
  The callback of the \<^verbatim>\<open>map\<close> of line 259. Of the properties the spread copies, the
  pipeline reads \<^verbatim>\<open>criterion_id\<close> and \<^verbatim>\<open>reasoning\<close>; the others are left out.
\<close>

definition sanitize :: "jsval \<Rightarrow> js_error + eval" where
  "sanitize e =
     (case get e ''response'' of
        Inl err \<Rightarrow> Inl err
      | Inr r \<Rightarrow>
          Inr \<lparr> criterion_id = read e ''criterion_id'',
                response = (if valid_response r then r else Str ''No''),
                reasoning = read e ''reasoning'' \<rparr>)"

fun sanitize_all :: "jsval list \<Rightarrow> js_error + eval list" where
  "sanitize_all [] = Inr []"
| "sanitize_all (e # es) =
     (case sanitize e of
        Inl err \<Rightarrow> Inl err
      | Inr x \<Rightarrow>
          (case sanitize_all es of
             Inl err \<Rightarrow> Inl err
           | Inr xs \<Rightarrow> Inr (x # xs)))"

text \<open>
  The body of the inner \<^verbatim>\<open>try\<close> after \<^verbatim>\<open>JSON.parse\<close> has returned: lines 254 to 264.
  Only an array has a \<^verbatim>\<open>map\<close> to call.
\<close>

definition checked_evaluation :: "jsval \<Rightarrow> js_error + paperEval" where
  "checked_evaluation evaluation =
     (case get evaluation ''evaluations'' of
        Inl err \<Rightarrow> Inl err
      | Inr evs \<Rightarrow>
          if falsy evs \<or> read evs ''length'' \<noteq> Num 6 then Inl Invalid_structure
          else
            (case evs of
               Arr es props \<Rightarrow>
                 (case sanitize_all es of
                    Inl err \<Rightarrow> Inl err
                  | Inr xs \<Rightarrow>
                      Inr \<lparr> pe_paper_id = read evaluation ''paper_id'',
                            pe_title = read evaluation ''title'',
                            evaluations = xs \<rparr>)
             | _ \<Rightarrow> Inl TypeError))"

text \<open>The object pushed in the inner \<^verbatim>\<open>catch\<close>: lines 267 to 275.\<close>

definition fallback_evaluation :: "nat \<Rightarrow> paper \<Rightarrow> jsval list \<Rightarrow> paperEval" where
  "fallback_evaluation i p criteria =
     \<lparr> pe_paper_id = Num (int i + 1),
       pe_title = opt_str (title p),
       evaluations =
         map (\<lambda>c. \<lparr> criterion_id = read c ''id'',
                    response = Str ''Maybe'',
                    reasoning = Str ''Evaluation failed, marked as Maybe'' \<rparr>)
           criteria \<rparr>"

definition evaluate_one :: "reply \<Rightarrow> nat \<Rightarrow> paper \<Rightarrow> jsval list \<Rightarrow> js_error + paperEval" where
  "evaluate_one r i p criteria =
     (case r of
        Invoke_failed \<Rightarrow> Inl Gateway_failure
      | Not_json \<Rightarrow> Inr (fallback_evaluation i p criteria)
      | Json v \<Rightarrow>
          (case checked_evaluation v of
             Inl err \<Rightarrow> Inr (fallback_evaluation i p criteria)
           | Inr pe \<Rightarrow> Inr pe))"

text \<open>
  The loop of line 207. Building \<^verbatim>\<open>criteriaText\<close> reads \<^verbatim>\<open>c.id\<close> of every criterion
  before the gateway is called, outside the inner \<^verbatim>\<open>try\<close>.
\<close>

fun evaluate_loop ::
  "gateway \<Rightarrow> jsval list \<Rightarrow> nat \<Rightarrow> paper list \<Rightarrow> request list \<times> (js_error + paperEval list)" where
  "evaluate_loop gw criteria i [] = ([], Inr [])"
| "evaluate_loop gw criteria i (p # ps) =
     (if list_ex nullish criteria then ([], Inl TypeError)
      else
        (case evaluate_one (gw (Evaluate i)) i p criteria of
           Inl e \<Rightarrow> ([Evaluate i], Inl e)
         | Inr pe \<Rightarrow>
             (case evaluate_loop gw criteria (i + 1) ps of
                (calls, Inl e) \<Rightarrow> (Evaluate i # calls, Inl e)
              | (calls, Inr pes) \<Rightarrow> (Evaluate i # calls, Inr (pe # pes)))))"

definition agent4_evaluatePapers :: "gateway \<Rightarrow> wstate \<Rightarrow> outcome" where
  "agent4_evaluatePapers gw state =
     (case evaluate_loop gw (generatedCriteria state) 0 (inputPapers state) of
        (calls, Inl e) \<Rightarrow> fail 4 e (called calls state)
      | (calls, Inr pes) \<Rightarrow>
          Returned
            (called calls state
               \<lparr>evaluationResults := pes, currentStep := ''Papers Evaluated''\<rparr>))"

section \<open>Agent 5: statistics\<close>

definition empty_stat :: "jsval \<Rightarrow> stat" where
  "empty_stat c =
     \<lparr> st_criterion = read c ''criterion'',
       st_description = read c ''description'',
       st_yes_count = 0, st_maybe_count = 0, st_no_count = 0,
       yes_papers = [], maybe_papers = [], no_papers = [] \<rparr>"

text \<open>The property key of \<^verbatim>\<open>stats[criterion.id]\<close>.\<close>

definition criterion_key :: "jsval \<Rightarrow> string" where
  "criterion_key c = ToString (read c ''id'')"

text \<open>The first \<^verbatim>\<open>forEach\<close>: \<^verbatim>\<open>stats[criterion.id] = {...}\<close>.\<close>

definition init_stats :: "jsval list \<Rightarrow> (string \<times> stat) list" where
  "init_stats criteria =
     foldl (\<lambda>stats c. AList.update (criterion_key c) (empty_stat c) stats) [] criteria"

text \<open>The body of the inner \<^verbatim>\<open>forEach\<close>: lines 319 to 347.\<close>

definition count_eval :: "paperEval \<Rightarrow> (string \<times> stat) list \<Rightarrow> eval \<Rightarrow> (string \<times> stat) list" where
  "count_eval paperEval stats e =
     (case map_of stats (ToString (criterion_id e)) of
        None \<Rightarrow> stats
      | Some criterionStat \<Rightarrow>
          (let r = \<lparr> ref_paper_id = pe_paper_id paperEval,
                     ref_title = pe_title paperEval,
                     ref_reasoning = reasoning e \<rparr>
           in if response e = Str ''Yes'' then
                AList.update (ToString (criterion_id e))
                  (criterionStat\<lparr>st_yes_count := st_yes_count criterionStat + 1,
                                 yes_papers := yes_papers criterionStat @ [r]\<rparr>) stats
              else if response e = Str ''Maybe'' then
                AList.update (ToString (criterion_id e))
                  (criterionStat\<lparr>st_maybe_count := st_maybe_count criterionStat + 1,
                                 maybe_papers := maybe_papers criterionStat @ [r]\<rparr>) stats
              else if response e = Str ''No'' then
                AList.update (ToString (criterion_id e))
                  (criterionStat\<lparr>st_no_count := st_no_count criterionStat + 1,
                                 no_papers := no_papers criterionStat @ [r]\<rparr>) stats
              else stats))"

definition count_paper :: "(string \<times> stat) list \<Rightarrow> paperEval \<Rightarrow> (string \<times> stat) list" where
  "count_paper stats paperEval = foldl (count_eval paperEval) stats (evaluations paperEval)"

definition agent5_generateStats :: "wstate \<Rightarrow> outcome" where
  "agent5_generateStats state =
     (if list_ex nullish (generatedCriteria state) then fail 5 TypeError state
      else
        Returned
          (state\<lparr>criteriaStats :=
                    foldl count_paper (init_stats (generatedCriteria state))
                      (evaluationResults state),
                 currentStep := ''Statistics Generated''\<rparr>))"

section \<open>The workflow and the route\<close>

definition and_then :: "outcome \<Rightarrow> (wstate \<Rightarrow> outcome) \<Rightarrow> outcome" where
  "and_then r agent = (case r of Returned state \<Rightarrow> agent state | Threw e state \<Rightarrow> Threw e state)"

text \<open>
  \<^verbatim>\<open>createWorkflow\<close> and \<^verbatim>\<open>workflow.invoke\<close>: the entry point is agent 1 and the edges
  chain the six agents, each running on the state the one before returned; an agent
  that throws ends the run, and \<^verbatim>\<open>invoke\<close> throws what it threw.
\<close>

definition workflow_invoke :: "gateway \<Rightarrow> wstate \<Rightarrow> outcome" where
  "workflow_invoke gw state =
     and_then (and_then (and_then (and_then (and_then
       (agent1_processInput state)
       (agent2_extractMetadata gw))
       (agent3_generateCriteria gw))
       (agent4_evaluatePapers gw))
       agent5_generateStats)
       agent6_selectTopPapers"

record selected_paper =
  rank :: nat
  paper_id :: jsval
  out_title :: jsval
  out_eligibility_score :: nat
  criteria_results :: "nat \<times> nat \<times> nat"
  detailed_evaluations :: "eval list"
  out_metadata :: jsval

record success_body =
  workflow_steps :: string
  input_papers_count :: nat
  generated_criteria :: "jsval list"
  criteria_statistics :: "(string \<times> stat) list"
  selected_papers_count :: nat
  selected_papers :: "selected_paper list"
  out_errors :: "(nat \<times> js_error) list"

text \<open>The body of the reply: status 200 with the envelope, or status 500 with the error.\<close>

datatype response = Success success_body | Failure js_error

text \<open>
  \<^verbatim>\<open>indexOf(paper) + 1\<close> finds an object by identity, and every selected object was
  made by its own spread: the rank is the position plus one.
\<close>

definition present :: "nat \<Rightarrow> selected \<Rightarrow> selected_paper" where
  "present i s =
     \<lparr> rank = i + 1,
       paper_id = sp_paper_id (sel_scored s),
       out_title = sp_title (sel_scored s),
       out_eligibility_score = eligibility_score (sel_scored s),
       criteria_results =
         (yes_count (sel_scored s), maybe_count (sel_scored s), no_count (sel_scored s)),
       detailed_evaluations = sp_evaluations (sel_scored s),
       out_metadata = metadata s \<rparr>"

text \<open>
  The handler of \<^verbatim>\<open>POST /screen-papers\<close> for a body whose \<^verbatim>\<open>papers\<close> is an array.
\<close>

definition screen_papers :: "gateway \<Rightarrow> paper list \<Rightarrow> response" where
  "screen_papers gw papers =
     (case workflow_invoke gw (WorkflowState\<lparr>inputPapers := papers\<rparr>) of
        Threw e state \<Rightarrow> Failure e
      | Returned finalState \<Rightarrow>
          Success
            \<lparr> workflow_steps = currentStep finalState,
              input_papers_count = length (inputPapers finalState),
              generated_criteria = generatedCriteria finalState,
              criteria_statistics = criteriaStats finalState,
              selected_papers_count = length (finalSelectedPapers finalState),
              selected_papers =
                map (\<lambda>(i, s). present i s)
                  (zip [0 ..< length (finalSelectedPapers finalState)]
                     (finalSelectedPapers finalState)),
              out_errors = errors finalState \<rparr>)"

section \<open>Notions used in the statements\<close>

text \<open>The state an agent or the workflow leaves behind, returned or thrown.\<close>

definition state_of :: "outcome \<Rightarrow> wstate" where
  "state_of r = (case r of Returned state \<Rightarrow> state | Threw e state \<Rightarrow> state)"

text \<open>The key under which the comparator of agent 6 sorts ascending.\<close>

definition neg_score :: "scored \<Rightarrow> int" where
  "neg_score p = - int (eligibility_score p)"

text \<open>\<^verbatim>\<open>Array.isArray(v) && v.length === 6\<close>.\<close>

definition is_six_array :: "jsval \<Rightarrow> bool" where
  "is_six_array v = (case v of Arr cs props \<Rightarrow> length cs = 6 | _ \<Rightarrow> False)"

text \<open>The entry that the callback of line 259 returns for an entry that is not \<^verbatim>\<open>null\<close>.\<close>

definition sanitized :: "jsval \<Rightarrow> eval" where
  "sanitized e =
     \<lparr> criterion_id = read e ''criterion_id'',
       response = (if valid_response (read e ''response'') then read e ''response'' else Str ''No''),
       reasoning = read e ''reasoning'' \<rparr>"

text \<open>Every response of a document's evaluation is one of the three strings.\<close>

definition responses_valid :: "paperEval \<Rightarrow> bool" where
  "responses_valid pe = list_all (\<lambda>e. valid_response (response e)) (evaluations pe)"





subsection \<open>Sample inputs\<close>

definition mixed :: "string list \<Rightarrow> paperEval" where
  "mixed rs =
     \<lparr> pe_paper_id = Num 1, pe_title = Str ''t'',
       evaluations = map (\<lambda>r. \<lparr> criterion_id = Num 1, response = Str r, reasoning = Str ''r'' \<rparr>) rs \<rparr>"

definition all_yes :: "nat \<Rightarrow> paperEval" where
  "all_yes i =
     \<lparr> pe_paper_id = Num (int i + 1), pe_title = Str ''t'',
       evaluations =
         map (\<lambda>c. \<lparr> criterion_id = Num c, response = Str ''Yes'', reasoning = Str ''r'' \<rparr>)
           [1, 2, 3, 4, 5, 6] \<rparr>"

definition fifty_all_yes :: wstate where
  "fifty_all_yes = WorkflowState\<lparr>evaluationResults := map all_yes [0 ..< 50]\<rparr>"

definition good_paper :: paper where
  "good_paper = \<lparr> title = Some ''A study'', abstract = Some ''We study.'' \<rparr>"

definition no_abstract :: paper where
  "no_abstract = \<lparr> title = Some ''A study'', abstract = None \<rparr>"

definition silent :: gateway where
  "silent r = Not_json"

definition five_criteria :: jsval where
  "five_criteria =
     Arr (map (\<lambda>i. Obj [(''id'', Num i), (''criterion'', Str ''c''), (''description'', Str ''d''),
                         (''evaluation_focus'', Str ''f'')]) [1, 2, 3, 4, 5]) []"

definition five_only :: gateway where
  "five_only r = (case r of Generate \<Rightarrow> Json five_criteria | _ \<Rightarrow> Not_json)"

definition six_criteria :: "jsval list" where
  "six_criteria =
     map (\<lambda>i. Obj [(''id'', Num i), (''criterion'', Str ''c''), (''description'', Str ''d''),
                    (''evaluation_focus'', Str ''f'')]) [1, 2, 3, 4, 5, 6]"








definition long_paper :: paper where
  "long_paper = \<lparr> title = Some ''A long study'', abstract = Some (replicate 250 CHR ''a'') \<rparr>"

definition yes_reply :: "int \<Rightarrow> jsval" where
  "yes_reply n =
     Obj [(''paper_id'', Num n), (''title'', Str ''t''),
          (''evaluations'',
             Arr (map (\<lambda>c. Obj [(''criterion_id'', Num c), (''response'', Str ''Yes''),
                                 (''reasoning'', Str ''r'')]) [1, 2, 3, 4, 5, 6]) [])]"

definition mislabelling :: gateway where
  "mislabelling r =
     (case r of
        Extract i \<Rightarrow> Not_json
      | Generate \<Rightarrow> Json (Arr six_criteria [])
      | Evaluate i \<Rightarrow> Json (yes_reply (if i = 0 then 7 else int i + 1)))"

definition numbered_papers :: "paper list" where
  "numbered_papers =
     map (\<lambda>i. \<lparr> title = Some (''Paper '' @ show_nat (i + 1)), abstract = Some ''We study.'' \<rparr>) [0 ..< 50]"

definition unreadable :: gateway where
  "unreadable r = (case r of Generate \<Rightarrow> Json (Arr six_criteria []) | _ \<Rightarrow> Not_json)"

section \<open>Scoring and selection\<close>

lemma insert_by_insort: "insert_by by_score x ys = insort_key neg_score x ys"
  by (induction ys) (auto simp: by_score_def neg_score_def)

lemma array_sort_sort_key: "array_sort by_score xs = sort_key neg_score xs"
  by (induction xs) (simp_all add: array_sort_def sort_key_def insert_by_insort)

lemma mset_array_sort: "mset (array_sort by_score xs) = mset xs"
  by (simp add: array_sort_sort_key)

lemma array_sort_descending:
  "sorted_wrt (\<lambda>a b. eligibility_score b \<le> eligibility_score a) (array_sort by_score xs)"
proof -
  have "sorted (map neg_score (sort_key neg_score xs))" by (rule sorted_sort_key)
  then show ?thesis
    by (simp add: array_sort_sort_key sorted_map neg_score_def)
qed

lemma array_sort_stable:
  "filter (\<lambda>p. eligibility_score p = k) (array_sort by_score xs) =
   filter (\<lambda>p. eligibility_score p = k) xs"
proof -
  have "filter (\<lambda>p. neg_score p = - int k) (sort_key neg_score xs) =
        filter (\<lambda>p. neg_score p = - int k) xs"
    by (rule sort_key_stable)
  then show ?thesis by (simp add: array_sort_sort_key neg_score_def)
qed

lemma array_sort_all_equal:
  assumes "\<And>p. p \<in> set xs \<Longrightarrow> eligibility_score p = k"
  shows "array_sort by_score xs = xs"
proof -
  have "set (array_sort by_score xs) = set xs"
    by (metis mset_array_sort set_mset_mset)
  then have "filter (\<lambda>p. eligibility_score p = k) (array_sort by_score xs) = array_sort by_score xs"
    using assms by (simp add: filter_id_conv)
  moreover have "filter (\<lambda>p. eligibility_score p = k) xs = xs"
    using assms by (simp add: filter_id_conv)
  ultimately show ?thesis using array_sort_stable [of k xs] by simp
qed

lemma length_select_top: "length (select_top xs) = min 10 (length xs)"
proof -
  let ?s = "array_sort by_score xs"
  have l: "length ?s = length xs" by (metis mset_array_sort size_mset)
  have "length (filter is_eligible ?s) + length (filter (\<lambda>p. \<not> is_eligible p) ?s) = length ?s"
    by (rule sum_length_filter_compl)
  with l show ?thesis by (auto simp: select_top_def Let_def)
qed

lemma tally_counts:
  "tally es (y, m, n) =
     (y + length (filter (\<lambda>e. response e = Str ''Yes'') es),
      m + length (filter (\<lambda>e. response e = Str ''Maybe'') es),
      n + length (filter (\<lambda>e. response e = Str ''No'') es))"
  by (induction es arbitrary: y m n) auto

lemma ineligible_bound: "y + m + n = 6 \<Longrightarrow> \<not> snd (tier y m) \<Longrightarrow> final_score y m \<le> 40"
  by (auto simp: tier_def final_score_def split: if_splits)

lemma scores: "final_score 6 0 = 1060" "final_score 5 1 = 955" "final_score 4 2 = 850"
  by (simp_all add: final_score_def tier_def)

lemma score_paper_counts:
  "yes_count (score_paper pe) = length (filter (\<lambda>e. response e = Str ''Yes'') (evaluations pe))"
  "maybe_count (score_paper pe) = length (filter (\<lambda>e. response e = Str ''Maybe'') (evaluations pe))"
  "no_count (score_paper pe) = length (filter (\<lambda>e. response e = Str ''No'') (evaluations pe))"
  by (simp_all add: score_paper_def tally_counts)

lemma score_paper_score:
  "eligibility_score (score_paper pe) = final_score (yes_count (score_paper pe)) (maybe_count (score_paper pe))"
  "is_eligible (score_paper pe) = snd (tier (yes_count (score_paper pe)) (maybe_count (score_paper pe)))"
  by (simp_all add: score_paper_def split: prod.splits)

text \<open>
  Claim C1. For every document, agent 6 counts the Yes, Maybe and No responses of its
  evaluations; when the three counts add up to 6, the eligibility score is the base of
  the tier (1000 for 6 Yes; 900 for 5 Yes and 1 Maybe; 800 for 4 Yes and 2 Maybe; 700
  for at least 3 Yes and at least 5 Yes or Maybe; 0 otherwise) plus the bonus
  \<open>10 * yes_count + 5 * maybe_count\<close>, and the document is eligible exactly in the first
  four cases. The bonus is part of the score in every case, the ineligible one included.
\<close>

theorem tier_base_plus_bonus:
  "yes_count (score_paper pe) = length (filter (\<lambda>e. response e = Str ''Yes'') (evaluations pe)) \<and>
   maybe_count (score_paper pe) = length (filter (\<lambda>e. response e = Str ''Maybe'') (evaluations pe)) \<and>
   no_count (score_paper pe) = length (filter (\<lambda>e. response e = Str ''No'') (evaluations pe)) \<and>
   (yes_count (score_paper pe) + maybe_count (score_paper pe) + no_count (score_paper pe) = 6 \<longrightarrow>
      (let y = yes_count (score_paper pe); m = maybe_count (score_paper pe) in
         eligibility_score (score_paper pe) =
           (if y = 6 then 1000
            else if y = 5 \<and> m = 1 then 900
            else if y = 4 \<and> m = 2 then 800
            else if y \<ge> 3 \<and> y + m \<ge> 5 then 700
            else 0) + (10 * y + 5 * m) \<and>
         is_eligible (score_paper pe) =
           (y = 6 \<or> (y = 5 \<and> m = 1) \<or> (y = 4 \<and> m = 2) \<or> (y \<ge> 3 \<and> y + m \<ge> 5))))"
  by (simp add: score_paper_counts [symmetric] score_paper_score Let_def tier_def final_score_def)

theorem tier_base_plus_bonus_witness:
  "yes_count (score_paper (mixed [''Yes'', ''Maybe'', ''No'', ''Maybe'', ''Yes'', ''Maybe''])) = 2 \<and>
   maybe_count (score_paper (mixed [''Yes'', ''Maybe'', ''No'', ''Maybe'', ''Yes'', ''Maybe''])) = 3 \<and>
   no_count (score_paper (mixed [''Yes'', ''Maybe'', ''No'', ''Maybe'', ''Yes'', ''Maybe''])) = 1 \<and>
   eligibility_score (score_paper (mixed [''Yes'', ''Maybe'', ''No'', ''Maybe'', ''Yes'', ''Maybe''])) = 35 \<and>
   \<not> is_eligible (score_paper (mixed [''Yes'', ''Maybe'', ''No'', ''Maybe'', ''Yes'', ''Maybe'']))"
  using tier_base_plus_bonus [of "mixed [''Yes'', ''Maybe'', ''No'', ''Maybe'', ''Yes'', ''Maybe'']"]
  by (simp add: mixed_def Let_def)

text \<open>
  Claim C2. A document with 6 Yes scores strictly more than one with 5 Yes and 1 Maybe,
  which scores strictly more than one with 4 Yes and 2 Maybe, which scores strictly more
  than every ineligible document whose counts add up to 6.
\<close>

theorem tier_order:
  assumes "yes_count (score_paper a) = 6" "maybe_count (score_paper a) = 0"
    and "yes_count (score_paper b) = 5" "maybe_count (score_paper b) = 1"
    and "yes_count (score_paper c) = 4" "maybe_count (score_paper c) = 2"
    and "yes_count (score_paper d) + maybe_count (score_paper d) + no_count (score_paper d) = 6"
    and "\<not> is_eligible (score_paper d)"
  shows "eligibility_score (score_paper a) > eligibility_score (score_paper b) \<and>
         eligibility_score (score_paper b) > eligibility_score (score_paper c) \<and>
         eligibility_score (score_paper c) > eligibility_score (score_paper d)"
proof -
  have a: "eligibility_score (score_paper a) = 1060"
    using assms(1,2) by (simp add: score_paper_score final_score_def tier_def)
  have b: "eligibility_score (score_paper b) = 955"
    using assms(3,4) by (simp add: score_paper_score final_score_def tier_def)
  have c: "eligibility_score (score_paper c) = 850"
    using assms(5,6) by (simp add: score_paper_score final_score_def tier_def)
  have d: "eligibility_score (score_paper d) \<le> 40"
    using assms(7,8) ineligible_bound [of "yes_count (score_paper d)" "maybe_count (score_paper d)" "no_count (score_paper d)"]
    by (simp add: score_paper_score)
  from a b c d show ?thesis by simp
qed

theorem tier_order_witness:
  "eligibility_score (score_paper (mixed [''Yes'', ''Yes'', ''Yes'', ''Yes'', ''Yes'', ''Yes''])) >
     eligibility_score (score_paper (mixed [''Yes'', ''Yes'', ''Maybe'', ''Yes'', ''Yes'', ''Yes''])) \<and>
   eligibility_score (score_paper (mixed [''Yes'', ''Yes'', ''Maybe'', ''Yes'', ''Yes'', ''Yes''])) >
     eligibility_score (score_paper (mixed [''Maybe'', ''Yes'', ''Maybe'', ''Yes'', ''Yes'', ''Yes''])) \<and>
   eligibility_score (score_paper (mixed [''Maybe'', ''Yes'', ''Maybe'', ''Yes'', ''Yes'', ''Yes''])) >
     eligibility_score (score_paper (mixed [''Maybe'', ''Yes'', ''Maybe'', ''Yes'', ''Maybe'', ''Maybe'']))"
  by (rule tier_order) (simp_all add: mixed_def score_paper_def tier_def)

lemma all_yes_score:
  assumes "list_all (\<lambda>e. response e = Str ''Yes'') (evaluations pe)" "length (evaluations pe) = 6"
  shows "eligibility_score (score_paper pe) = 1060 \<and> is_eligible (score_paper pe)"
proof -
  have y: "filter (\<lambda>e. response e = Str ''Yes'') (evaluations pe) = evaluations pe"
    using assms(1) by (simp add: list_all_iff filter_id_conv)
  have m: "filter (\<lambda>e. response e = Str ''Maybe'') (evaluations pe) = []"
    using assms(1) by (auto simp: list_all_iff filter_empty_conv)
  have "yes_count (score_paper pe) = 6" "maybe_count (score_paper pe) = 0"
    using assms(2) by (simp_all add: score_paper_counts y m)
  then show ?thesis by (simp add: score_paper_score final_score_def tier_def)
qed

lemma select_top_all_equal:
  assumes "\<And>p. p \<in> set ps \<Longrightarrow> eligibility_score p = k \<and> is_eligible p"
  shows "select_top ps = take 10 ps"
proof -
  have s: "array_sort by_score ps = ps" using assms by (intro array_sort_all_equal) simp
  have e: "filter is_eligible ps = ps" using assms by (simp add: filter_id_conv)
  have n: "filter (\<lambda>p. \<not> is_eligible p) ps = []" using assms by (simp add: filter_empty_conv)
  show ?thesis by (simp add: select_top_def s e n)
qed

text \<open>
  Claim C3. The scored documents are ranked by a stable descending sort: the ranking is
  a rearrangement of the scored documents, no document is ranked before one with a
  higher score, and documents of equal score keep their input order. Agent 6 selects
  the first 10 eligible documents of the ranking when at least 10 are eligible, and
  otherwise all eligible ones followed by the first ineligible ones of the ranking up
  to 10 in total; it selects 10 documents, or all of them when there are fewer. When
  every document has six Yes, every score is \<open>1000 + 60\<close> and the selection is the
  first 10 documents in input order.
\<close>

theorem stable_ranked_selection:
  "(let ps = map score_paper (evaluationResults state);
        ranked = array_sort by_score ps;
        el = filter is_eligible ranked;
        ne = filter (\<lambda>p. \<not> is_eligible p) ranked
    in mset ranked = mset ps \<and>
       sorted_wrt (\<lambda>a b. eligibility_score b \<le> eligibility_score a) ranked \<and>
       (\<forall>k. filter (\<lambda>p. eligibility_score p = k) ranked = filter (\<lambda>p. eligibility_score p = k) ps) \<and>
       agent6_selectTopPapers state =
         Returned
           (state\<lparr>finalSelectedPapers :=
                     map (join state)
                       (if 10 \<le> length el then take 10 el else el @ take (10 - length el) ne),
                  currentStep := ''Top 10 Selected''\<rparr>) \<and>
       length (finalSelectedPapers (state_of (agent6_selectTopPapers state))) =
         min 10 (length (evaluationResults state)) \<and>
       ((\<forall>pe \<in> set (evaluationResults state).
            list_all (\<lambda>e. response e = Str ''Yes'') (evaluations pe) \<and> length (evaluations pe) = 6) \<longrightarrow>
        list_all (\<lambda>p. eligibility_score p = 1000 + 60) ps \<and>
        finalSelectedPapers (state_of (agent6_selectTopPapers state)) =
          map (\<lambda>pe. join state (score_paper pe)) (take 10 (evaluationResults state))))"
proof -
  let ?ps = "map score_paper (evaluationResults state)"
  have sel: "finalSelectedPapers (state_of (agent6_selectTopPapers state)) = map (join state) (select_top ?ps)"
    by (simp add: agent6_selectTopPapers_def state_of_def)
  have a6: "agent6_selectTopPapers state =
         Returned
           (state\<lparr>finalSelectedPapers :=
                     map (join state)
                       (if 10 \<le> length (filter is_eligible (array_sort by_score ?ps))
                        then take 10 (filter is_eligible (array_sort by_score ?ps))
                        else filter is_eligible (array_sort by_score ?ps) @
                             take (10 - length (filter is_eligible (array_sort by_score ?ps)))
                               (filter (\<lambda>p. \<not> is_eligible p) (array_sort by_score ?ps))),
                  currentStep := ''Top 10 Selected''\<rparr>)"
    by (simp add: agent6_selectTopPapers_def select_top_def Let_def)
  have len: "length (finalSelectedPapers (state_of (agent6_selectTopPapers state))) =
         min 10 (length (evaluationResults state))"
    by (simp add: sel length_select_top)
  have scen: "list_all (\<lambda>p. eligibility_score p = 1000 + 60) ?ps \<and>
        finalSelectedPapers (state_of (agent6_selectTopPapers state)) =
          map (\<lambda>pe. join state (score_paper pe)) (take 10 (evaluationResults state))"
    if h: "\<forall>pe \<in> set (evaluationResults state).
            list_all (\<lambda>e. response e = Str ''Yes'') (evaluations pe) \<and> length (evaluations pe) = 6"
  proof -
    have all: "\<And>p. p \<in> set ?ps \<Longrightarrow> eligibility_score p = 1060 \<and> is_eligible p"
      using h all_yes_score by auto
    then have "select_top ?ps = take 10 ?ps" by (rule select_top_all_equal)
    then show ?thesis using all by (simp add: sel take_map list_all_iff)
  qed
  show ?thesis
    unfolding Let_def
    using mset_array_sort [of ?ps] array_sort_descending [of ?ps] array_sort_stable [of _ ?ps] a6 len scen
    by blast
qed

theorem stable_ranked_selection_witness:
  "map (\<lambda>s. sp_paper_id (sel_scored s))
     (finalSelectedPapers (state_of (agent6_selectTopPapers fifty_all_yes))) =
   [Num 1, Num 2, Num 3, Num 4, Num 5, Num 6, Num 7, Num 8, Num 9, Num 10]"
proof -
  have h: "\<forall>pe \<in> set (evaluationResults fifty_all_yes).
            list_all (\<lambda>e. response e = Str ''Yes'') (evaluations pe) \<and> length (evaluations pe) = 6"
    by (simp add: fifty_all_yes_def WorkflowState_def all_yes_def)
  have "finalSelectedPapers (state_of (agent6_selectTopPapers fifty_all_yes)) =
          map (\<lambda>pe. join fifty_all_yes (score_paper pe)) (take 10 (evaluationResults fifty_all_yes))"
    using stable_ranked_selection [of fifty_all_yes] h unfolding Let_def by blast
  moreover have "take 10 (evaluationResults fifty_all_yes) = map all_yes [0 ..< 10]"
    by (simp add: fifty_all_yes_def WorkflowState_def take_map)
  moreover have "[0 ..< 10] = [0, 1, 2, 3, 4, 5, 6, 7, 8, 9 :: nat]"
    by (simp add: upt_rec)
  ultimately show ?thesis
    by (simp add: join_def score_paper_def all_yes_def)
qed

section \<open>Input validation\<close>

lemma missing_fields_iff:
  "missing_fields p = (title p = None \<or> title p = Some [] \<or> abstract p = None \<or> abstract p = Some [])"
  by (auto simp: missing_fields_def falsy_def opt_str_def split: option.splits)

lemma validate_papers_ok: "\<not> list_ex missing_fields ps \<Longrightarrow> validate_papers i ps = None"
  by (induction ps arbitrary: i) auto

lemma validate_papers_first:
  "list_ex missing_fields ps \<Longrightarrow>
   \<exists>j<length ps. missing_fields (ps ! j) \<and> (\<forall>k<j. \<not> missing_fields (ps ! k)) \<and>
      validate_papers i ps = Some (Missing_fields (i + j + 1))"
proof (induction ps arbitrary: i)
  case Nil
  then show ?case by simp
next
  case (Cons p ps)
  show ?case
  proof (cases "missing_fields p")
    case True
    then show ?thesis by (intro exI [of _ 0]) simp
  next
    case False
    with Cons.prems have "list_ex missing_fields ps" by simp
    from Cons.IH [OF this, of "i + 1"] obtain j where j: "j < length ps" "missing_fields (ps ! j)"
      "\<forall>k<j. \<not> missing_fields (ps ! k)" "validate_papers (i + 1) ps = Some (Missing_fields (i + 1 + j + 1))"
      by blast
    have "\<forall>k<Suc j. \<not> missing_fields ((p # ps) ! k)"
      using False j(3) by (auto simp: less_Suc_eq_0_disj)
    with j False show ?thesis by (intro exI [of _ "Suc j"]) simp
  qed
qed

lemma agent1_wrong_count:
  "length (inputPapers state) \<noteq> 50 \<Longrightarrow>
   agent1_processInput state = Threw Expected_50 (state\<lparr>errors := errors state @ [(1, Expected_50)]\<rparr>)"
  by (simp add: agent1_processInput_def fail_def)

lemma agent1_missing:
  assumes "length (inputPapers state) = 50" "list_ex missing_fields (inputPapers state)"
  shows "\<exists>i<50. missing_fields (inputPapers state ! i) \<and> (\<forall>j<i. \<not> missing_fields (inputPapers state ! j)) \<and>
     agent1_processInput state =
       Threw (Missing_fields (i + 1)) (state\<lparr>errors := errors state @ [(1, Missing_fields (i + 1))]\<rparr>)"
  using validate_papers_first [OF assms(2), of 0] assms(1)
  by (auto simp: agent1_processInput_def fail_def)

lemma agent1_ok:
  assumes "length (inputPapers state) = 50" "\<not> list_ex missing_fields (inputPapers state)"
  shows "agent1_processInput state = Returned (state\<lparr>currentStep := ''Input Processed''\<rparr>)"
  using assms by (simp add: agent1_processInput_def validate_papers_ok)

lemma workflow_agent1_threw:
  "agent1_processInput state = Threw e s \<Longrightarrow> workflow_invoke gw state = Threw e s"
  by (simp add: workflow_invoke_def and_then_def)

lemma screen_papers_threw:
  "workflow_invoke gw (WorkflowState\<lparr>inputPapers := papers\<rparr>) = Threw e s \<Longrightarrow>
   screen_papers gw papers = Failure e"
  by (simp add: screen_papers_def)

text \<open>
  Claim C10. A run whose input does not have exactly 50 documents fails with the count
  error, and a run of 50 documents of which one lacks its title or abstract fails with
  the missing-fields error that carries the 1-based position of the first such document.
  In both cases the workflow stops in agent 1: no gateway call has been made and no
  later agent has written to the state.
\<close>

theorem validation_precedes_every_stage:
  "(length papers \<noteq> 50 \<longrightarrow>
      workflow_invoke gw (WorkflowState\<lparr>inputPapers := papers\<rparr>) =
        Threw Expected_50 (WorkflowState\<lparr>inputPapers := papers, errors := [(1, Expected_50)]\<rparr>) \<and>
      screen_papers gw papers = Failure Expected_50) \<and>
   (length papers = 50 \<and> list_ex missing_fields papers \<longrightarrow>
      (\<exists>i<50. missing_fields (papers ! i) \<and> (\<forall>j<i. \<not> missing_fields (papers ! j)) \<and>
         workflow_invoke gw (WorkflowState\<lparr>inputPapers := papers\<rparr>) =
           Threw (Missing_fields (i + 1))
             (WorkflowState\<lparr>inputPapers := papers, errors := [(1, Missing_fields (i + 1))]\<rparr>) \<and>
         screen_papers gw papers = Failure (Missing_fields (i + 1)))) \<and>
   (length papers \<noteq> 50 \<or> list_ex missing_fields papers \<longrightarrow>
      gateway_calls (state_of (workflow_invoke gw (WorkflowState\<lparr>inputPapers := papers\<rparr>))) = [] \<and>
      currentStep (state_of (workflow_invoke gw (WorkflowState\<lparr>inputPapers := papers\<rparr>))) = [] \<and>
      extractedMetadata (state_of (workflow_invoke gw (WorkflowState\<lparr>inputPapers := papers\<rparr>))) = []) \<and>
   (\<forall>p. title p = None \<or> abstract p = None \<longrightarrow> missing_fields p)"
proof -
  let ?s = "WorkflowState\<lparr>inputPapers := papers\<rparr>"
  have c: "workflow_invoke gw ?s = Threw Expected_50 (?s\<lparr>errors := [(1, Expected_50)]\<rparr>) \<and>
           screen_papers gw papers = Failure Expected_50" if "length papers \<noteq> 50"
  proof -
    have "agent1_processInput ?s = Threw Expected_50 (?s\<lparr>errors := [(1, Expected_50)]\<rparr>)"
      using that agent1_wrong_count [of ?s] by (simp add: WorkflowState_def)
    then have "workflow_invoke gw ?s = Threw Expected_50 (?s\<lparr>errors := [(1, Expected_50)]\<rparr>)"
      by (rule workflow_agent1_threw)
    then show ?thesis by (simp add: screen_papers_threw)
  qed
  have m: "\<exists>i<50. missing_fields (papers ! i) \<and> (\<forall>j<i. \<not> missing_fields (papers ! j)) \<and>
         workflow_invoke gw ?s = Threw (Missing_fields (i + 1)) (?s\<lparr>errors := [(1, Missing_fields (i + 1))]\<rparr>) \<and>
         screen_papers gw papers = Failure (Missing_fields (i + 1))"
    if "length papers = 50" "list_ex missing_fields papers"
  proof -
    from agent1_missing [of ?s] that obtain i where i: "i < 50" "missing_fields (papers ! i)"
      "\<forall>j<i. \<not> missing_fields (papers ! j)"
      "agent1_processInput ?s = Threw (Missing_fields (i + 1)) (?s\<lparr>errors := [(1, Missing_fields (i + 1))]\<rparr>)"
      by (auto simp: WorkflowState_def)
    from i(4) have "workflow_invoke gw ?s = Threw (Missing_fields (i + 1)) (?s\<lparr>errors := [(1, Missing_fields (i + 1))]\<rparr>)"
      by (rule workflow_agent1_threw)
    with i show ?thesis using screen_papers_threw by blast
  qed
  have g: "gateway_calls (state_of (workflow_invoke gw ?s)) = [] \<and>
      currentStep (state_of (workflow_invoke gw ?s)) = [] \<and>
      extractedMetadata (state_of (workflow_invoke gw ?s)) = []"
    if "length papers \<noteq> 50 \<or> list_ex missing_fields papers"
  proof (cases "length papers \<noteq> 50")
    case True
    with c show ?thesis by (simp add: state_of_def WorkflowState_def)
  next
    case False
    with that m obtain i where
      "workflow_invoke gw ?s = Threw (Missing_fields (i + 1)) (?s\<lparr>errors := [(1, Missing_fields (i + 1))]\<rparr>)"
      by auto
    then show ?thesis by (simp add: state_of_def WorkflowState_def)
  qed
  show ?thesis using c m g by (simp add: missing_fields_iff)
qed

theorem validation_precedes_every_stage_witness:
  "screen_papers silent (replicate 49 good_paper) = Failure Expected_50 \<and>
   screen_papers silent (replicate 51 good_paper) = Failure Expected_50 \<and>
   screen_papers silent (replicate 2 good_paper @ no_abstract # replicate 47 good_paper) =
     Failure (Missing_fields 3) \<and>
   gateway_calls (state_of (workflow_invoke silent
     (WorkflowState\<lparr>inputPapers := replicate 2 good_paper @ no_abstract # replicate 47 good_paper\<rparr>))) = [] \<and>
   missing_fields no_abstract"
proof -
  let ?ps = "replicate 2 good_paper @ no_abstract # replicate 47 good_paper"
  have g: "\<not> missing_fields good_paper"
    by (simp add: missing_fields_iff good_paper_def)
  have b: "missing_fields no_abstract"
    using validation_precedes_every_stage [of "[]" silent] by (simp add: no_abstract_def)
  have ex: "list_ex missing_fields ?ps" using b by simp
  have len: "length ?ps = 50" by simp
  from validation_precedes_every_stage [of ?ps silent] ex len obtain i where
    i: "i < 50" "missing_fields (?ps ! i)" "\<forall>j<i. \<not> missing_fields (?ps ! j)"
      "screen_papers silent ?ps = Failure (Missing_fields (i + 1))"
    by blast
  have "?ps ! 2 = no_abstract" by (simp add: nth_append)
  with i(3) b have "i \<le> 2" by (metis not_le_imp_less)
  moreover have "?ps ! 0 = good_paper" "?ps ! 1 = good_paper" by (simp_all add: nth_append)
  ultimately have "i = 2" using i(2) g
    by (metis One_nat_def Suc_1 le_Suc_eq le_zero_eq)
  with i(4) have 3: "screen_papers silent ?ps = Failure (Missing_fields 3)" by simp
  have 49: "screen_papers silent (replicate 49 good_paper) = Failure Expected_50"
    using validation_precedes_every_stage [of "replicate 49 good_paper" silent] by simp
  have 51: "screen_papers silent (replicate 51 good_paper) = Failure Expected_50"
    using validation_precedes_every_stage [of "replicate 51 good_paper" silent] by simp
  have calls: "gateway_calls (state_of (workflow_invoke silent (WorkflowState\<lparr>inputPapers := ?ps\<rparr>))) = []"
    using validation_precedes_every_stage [of ?ps silent] ex by blast
  from 49 51 3 calls b show ?thesis by blast
qed

section \<open>Metadata extraction\<close>

lemma upt_shift: "[i ..< i + Suc n] = i # [Suc i ..< Suc i + n]"
  by (simp add: upt_conv_Cons del: upt_Suc)

lemma put_nullish: "nullish v \<Longrightarrow> put v k x = Inl TypeError"
  by (cases v) (simp_all add: nullish_def)

lemma put_not_nullish: "\<not> nullish v \<Longrightarrow> \<exists>m. put v k x = Inr m \<and> \<not> nullish m"
  by (cases v) (simp_all add: nullish_def)

lemma attach_ids_cases:
  "attach_ids i v = Inl e \<longleftrightarrow> nullish v \<and> e = TypeError"
proof (cases "nullish v")
  case True
  then show ?thesis by (auto simp: attach_ids_def put_nullish)
next
  case False
  from put_not_nullish [OF False] obtain m where m: "put v ''paper_id'' (Num (int i + 1)) = Inr m" "\<not> nullish m"
    by blast
  from put_not_nullish [OF m(2)] obtain m' where "put m ''original_index'' (Num (int i)) = Inr m'"
    by blast
  with m False show ?thesis by (simp add: attach_ids_def)
qed

lemma attach_ids_not_nullish: "attach_ids i v = Inr m \<Longrightarrow> \<not> nullish m"
proof -
  assume a: "attach_ids i v = Inr m"
  have nv: "\<not> nullish v"
  proof
    assume "nullish v"
    then have "attach_ids i v = Inl TypeError" by (simp add: attach_ids_cases)
    with a show False by simp
  qed
  from put_not_nullish [OF nv] obtain m1 where m1: "put v ''paper_id'' (Num (int i + 1)) = Inr m1" "\<not> nullish m1"
    by blast
  from put_not_nullish [OF m1(2)] obtain m2 where m2: "put m1 ''original_index'' (Num (int i)) = Inr m2" "\<not> nullish m2"
    by blast
  from a m1 m2 show ?thesis by (simp add: attach_ids_def)
qed

lemma fallback_metadata_Some:
  "abstract p = Some a \<Longrightarrow> \<exists>m. fallback_metadata i p = Inr m \<and> \<not> nullish m"
  by (simp add: fallback_metadata_def nullish_def)

text \<open>What one round of agent 2 yields on a reply that is content.\<close>

lemma extract_one_content:
  assumes "r \<noteq> Invoke_failed" "abstract p \<noteq> None"
  shows "\<exists>m. extract_one r i p = Inr m \<and> \<not> nullish m"
proof -
  from assms(2) obtain a where a: "abstract p = Some a" by auto
  from fallback_metadata_Some [OF a] obtain f where f: "fallback_metadata i p = Inr f" "\<not> nullish f"
    by blast
  show ?thesis
  proof (cases r)
    case Invoke_failed
    with assms(1) show ?thesis by simp
  next
    case Not_json
    with f show ?thesis by (simp add: extract_one_def)
  next
    case (Json v)
    show ?thesis
    proof (cases "attach_ids i v")
      case (Inl e)
      with Json f show ?thesis by (simp add: extract_one_def)
    next
      case (Inr m)
      with Json attach_ids_not_nullish [OF Inr] show ?thesis by (simp add: extract_one_def)
    qed
  qed
qed



lemma extract_loop_returns:
  assumes "\<forall>p \<in> set ps. abstract p \<noteq> None"
    and "\<forall>j<length ps. gw (Extract (i + j)) \<noteq> Invoke_failed"
  shows "\<exists>ms. extract_loop gw i ps = (map Extract [i ..< i + length ps], Inr ms) \<and>
              length ms = length ps \<and> \<not> list_ex nullish ms \<and>
              (\<forall>j<length ps. extract_one (gw (Extract (i + j))) (i + j) (ps ! j) = Inr (ms ! j))"
  using assms
proof (induction ps arbitrary: i)
  case Nil
  then show ?case by simp
next
  case (Cons p ps)
  have "gw (Extract i) \<noteq> Invoke_failed" using Cons.prems(2) by force
  moreover have "abstract p \<noteq> None" using Cons.prems(1) by simp
  ultimately obtain m where m: "extract_one (gw (Extract i)) i p = Inr m" "\<not> nullish m"
    using extract_one_content by blast
  have "\<forall>j<length ps. gw (Extract (Suc i + j)) \<noteq> Invoke_failed"
    using Cons.prems(2) by force
  with Cons.IH [of "Suc i"] Cons.prems(1) obtain ms where
    ms: "extract_loop gw (Suc i) ps = (map Extract [Suc i ..< Suc i + length ps], Inr ms)"
      "length ms = length ps" "\<not> list_ex nullish ms"
      "\<forall>j<length ps. extract_one (gw (Extract (Suc i + j))) (Suc i + j) (ps ! j) = Inr (ms ! j)"
    by auto
  have each: "\<forall>j<length (p # ps). extract_one (gw (Extract (i + j))) (i + j) ((p # ps) ! j) = Inr ((m # ms) ! j)"
  proof (intro allI impI)
    fix j assume "j < length (p # ps)"
    then show "extract_one (gw (Extract (i + j))) (i + j) ((p # ps) ! j) = Inr ((m # ms) ! j)"
      using m(1) ms(4) by (cases j) auto
  qed
  define cs where "cs = map Extract [Suc i ..< Suc i + length ps]"
  have "extract_loop gw i (p # ps) = (Extract i # cs, Inr (m # ms))"
    using m(1) ms(1) unfolding cs_def [symmetric] by simp
  moreover have "map Extract [i ..< i + length (p # ps)] = Extract i # cs"
    unfolding cs_def using upt_shift [of i "length ps"] by (simp del: upt_Suc)
  ultimately have "extract_loop gw i (p # ps) = (map Extract [i ..< i + length (p # ps)], Inr (m # ms))"
    by simp
  with ms(2,3) m(2) each show ?case by (intro exI [of _ "m # ms"]) simp
qed


lemma agent2_returns:
  assumes "\<forall>p \<in> set (inputPapers state). abstract p \<noteq> None"
    and "\<forall>i<length (inputPapers state). gw (Extract i) \<noteq> Invoke_failed"
  shows "\<exists>ms. agent2_extractMetadata gw state =
            Returned (called (map Extract [0 ..< length (inputPapers state)]) state
                        \<lparr>extractedMetadata := ms, currentStep := ''Metadata Extracted''\<rparr>) \<and>
          length ms = length (inputPapers state) \<and> \<not> list_ex nullish ms \<and>
          (\<forall>i<length (inputPapers state).
             extract_one (gw (Extract i)) i (inputPapers state ! i) = Inr (ms ! i))"
proof -
  from extract_loop_returns [of "inputPapers state" gw 0] assms obtain ms where
    ms: "extract_loop gw 0 (inputPapers state) = (map Extract [0 ..< length (inputPapers state)], Inr ms)"
      "length ms = length (inputPapers state)" "\<not> list_ex nullish ms"
      "\<forall>j<length (inputPapers state). extract_one (gw (Extract j)) j (inputPapers state ! j) = Inr (ms ! j)"
    by auto
  then show ?thesis by (intro exI [of _ ms]) (simp add: agent2_extractMetadata_def)
qed


lemma not_missing_abstract: "\<not> list_ex missing_fields ps \<Longrightarrow> \<forall>p \<in> set ps. abstract p \<noteq> None"
  by (auto simp: list_ex_iff missing_fields_iff)

section \<open>Criteria generation\<close>

lemma agent3_not_six:
  assumes "\<not> list_ex nullish (extractedMetadata state)" "gw Generate = Json v" "\<not> is_six_array v"
  shows "agent3_generateCriteria gw state =
           Threw Criteria_not_6 (called [Generate] state\<lparr>errors := errors state @ [(3, Criteria_not_6)]\<rparr>)"
  using assms
  by (cases v) (simp_all add: agent3_generateCriteria_def is_six_array_def fail_def called_def)

lemma agent3_no_json:
  assumes "\<not> list_ex nullish (extractedMetadata state)" "gw Generate = Not_json"
  shows "agent3_generateCriteria gw state =
           Threw SyntaxError (called [Generate] state\<lparr>errors := errors state @ [(3, SyntaxError)]\<rparr>)"
  using assms by (simp add: agent3_generateCriteria_def fail_def called_def)

lemma agent3_returns:
  assumes "\<not> list_ex nullish (extractedMetadata state)" "gw Generate = Json (Arr cs props)" "length cs = 6"
  shows "agent3_generateCriteria gw state =
           Returned (called [Generate] state\<lparr>generatedCriteria := cs, currentStep := ''Criteria Generated''\<rparr>)"
  using assms by (simp add: agent3_generateCriteria_def)

text \<open>The run up to the reply to the criteria request.\<close>

lemma workflow_through_agent2:
  assumes "length papers = 50" "\<not> list_ex missing_fields papers"
    and "\<forall>i<50. gw (Extract i) \<noteq> Invoke_failed"
  shows "\<exists>ms. and_then (agent1_processInput (WorkflowState\<lparr>inputPapers := papers\<rparr>)) (agent2_extractMetadata gw) =
            Returned (WorkflowState\<lparr>inputPapers := papers, extractedMetadata := ms,
                        currentStep := ''Metadata Extracted'', gateway_calls := map Extract [0 ..< 50]\<rparr>) \<and>
          length ms = 50 \<and> \<not> list_ex nullish ms \<and>
          (\<forall>i<50. extract_one (gw (Extract i)) i (papers ! i) = Inr (ms ! i))"
proof -
  let ?s0 = "WorkflowState\<lparr>inputPapers := papers\<rparr>"
  let ?s1 = "?s0\<lparr>currentStep := ''Input Processed''\<rparr>"
  have 1: "agent1_processInput ?s0 = Returned ?s1"
    using assms(1,2) by (intro agent1_ok) simp_all
  have "\<forall>p \<in> set (inputPapers ?s1). abstract p \<noteq> None"
    using not_missing_abstract [OF assms(2)] by simp
  moreover have "\<forall>i<length (inputPapers ?s1). gw (Extract i) \<noteq> Invoke_failed"
    using assms(1,3) by simp
  ultimately obtain ms where ms:
    "agent2_extractMetadata gw ?s1 =
       Returned (called (map Extract [0 ..< length (inputPapers ?s1)]) ?s1
                   \<lparr>extractedMetadata := ms, currentStep := ''Metadata Extracted''\<rparr>)"
    "length ms = length (inputPapers ?s1)" "\<not> list_ex nullish ms"
    "\<forall>i<length (inputPapers ?s1). extract_one (gw (Extract i)) i (inputPapers ?s1 ! i) = Inr (ms ! i)"
    using agent2_returns [of ?s1 gw] by blast
  have "and_then (agent1_processInput ?s0) (agent2_extractMetadata gw) =
          Returned (WorkflowState\<lparr>inputPapers := papers, extractedMetadata := ms,
                      currentStep := ''Metadata Extracted'', gateway_calls := map Extract [0 ..< 50]\<rparr>)"
    using 1 ms(1) assms(1) by (simp add: and_then_def called_def WorkflowState_def)
  with ms(2-4) assms(1) show ?thesis by (intro exI [of _ ms]) simp
qed

lemma workflow_agent3_threw:
  assumes "and_then (agent1_processInput state) (agent2_extractMetadata gw) = Returned s2"
    and "agent3_generateCriteria gw s2 = Threw e s3"
  shows "workflow_invoke gw state = Threw e s3"
  using assms by (simp add: workflow_invoke_def and_then_def)


text \<open>
  Claim C8. In a run of 50 valid documents whose metadata requests the gateway answers,
  a criteria reply that decodes to anything but an array of length 6 (an array of 5,
  say) makes agent 3 throw: the workflow ends there with the error recorded for agent 3,
  after the criteria request no further gateway call is made, no criteria, evaluations,
  statistics or selected papers are stored, and the reply to the client is the failure
  body, which has no selected papers.
\<close>

theorem criteria_shape_is_fatal:
  assumes "length papers = 50" "\<not> list_ex missing_fields papers"
    and "\<forall>i<50. gw (Extract i) \<noteq> Invoke_failed"
    and "gw Generate = Json v" "\<not> is_six_array v"
  shows "\<exists>s. workflow_invoke gw (WorkflowState\<lparr>inputPapers := papers\<rparr>) = Threw Criteria_not_6 s \<and>
             errors s = [(3, Criteria_not_6)] \<and>
             gateway_calls s = map Extract [0 ..< 50] @ [Generate] \<and>
             generatedCriteria s = [] \<and> evaluationResults s = [] \<and>
             criteriaStats s = [] \<and> finalSelectedPapers s = [] \<and>
             screen_papers gw papers = Failure Criteria_not_6"
proof -
  from workflow_through_agent2 [OF assms(1-3)] obtain ms where
    2: "and_then (agent1_processInput (WorkflowState\<lparr>inputPapers := papers\<rparr>)) (agent2_extractMetadata gw) =
            Returned (WorkflowState\<lparr>inputPapers := papers, extractedMetadata := ms,
                        currentStep := ''Metadata Extracted'', gateway_calls := map Extract [0 ..< 50]\<rparr>)"
    and n: "\<not> list_ex nullish ms"
    by blast
  let ?s2 = "WorkflowState\<lparr>inputPapers := papers, extractedMetadata := ms,
                        currentStep := ''Metadata Extracted'', gateway_calls := map Extract [0 ..< 50]\<rparr>"
  let ?s3 = "called [Generate] ?s2\<lparr>errors := errors ?s2 @ [(3, Criteria_not_6)]\<rparr>"
  have 3: "agent3_generateCriteria gw ?s2 = Threw Criteria_not_6 ?s3"
    using n assms(4,5) by (intro agent3_not_six) simp_all
  have w: "workflow_invoke gw (WorkflowState\<lparr>inputPapers := papers\<rparr>) = Threw Criteria_not_6 ?s3"
    using 2 3 by (rule workflow_agent3_threw)
  then have "screen_papers gw papers = Failure Criteria_not_6" by (rule screen_papers_threw)
  with w show ?thesis
    by (intro exI [of _ ?s3]) (simp add: called_def WorkflowState_def)
qed

theorem criteria_shape_is_fatal_witness:
  "screen_papers five_only (replicate 50 good_paper) = Failure Criteria_not_6"
proof -
  have "\<not> missing_fields good_paper" by (simp add: missing_fields_iff good_paper_def)
  then have "\<not> list_ex missing_fields (replicate 50 good_paper)" by (simp add: list_ex_iff)
  moreover have "\<forall>i<50. five_only (Extract i) \<noteq> Invoke_failed" by (simp add: five_only_def)
  moreover have "five_only Generate = Json five_criteria" by (simp add: five_only_def)
  moreover have "\<not> is_six_array five_criteria" by (simp add: is_six_array_def five_criteria_def)
  ultimately show ?thesis
    using criteria_shape_is_fatal [of "replicate 50 good_paper" five_only five_criteria] by auto
qed

section \<open>Evaluation\<close>

lemma get_nullish: "nullish e \<Longrightarrow> get e k = Inl TypeError"
  by (cases e) (simp_all add: nullish_def)

lemma get_read: "\<not> nullish e \<Longrightarrow> get e k = Inr (read e k)"
  by (cases e) (simp_all add: nullish_def read_def)

lemma sanitize_cases:
  "sanitize e = (if nullish e then Inl TypeError else Inr (sanitized e))"
  by (simp add: sanitize_def sanitized_def get_nullish get_read)

lemma sanitize_all_cases:
  "sanitize_all es = (if list_ex nullish es then Inl TypeError else Inr (map sanitized es))"
  by (induction es) (simp_all add: sanitize_cases)

lemma sanitized_valid: "valid_response (response (sanitized e))"
  by (simp add: sanitized_def valid_response_def)

text \<open>The inner \<open>try\<close> of agent 4 completes exactly on six entries none of which is null.\<close>

lemma checked_evaluation_Inr:
  "checked_evaluation v = Inr pe \<longleftrightarrow>
     (\<exists>es props. get v ''evaluations'' = Inr (Arr es props) \<and> length es = 6 \<and>
        \<not> list_ex nullish es \<and>
        pe = \<lparr> pe_paper_id = read v ''paper_id'', pe_title = read v ''title'',
               evaluations = map sanitized es \<rparr>)"
proof (cases "get v ''evaluations''")
  case (Inl e)
  then show ?thesis by (simp add: checked_evaluation_def)
next
  case (Inr evs)
  show ?thesis
  proof (cases evs)
    case (Arr es props)
    with Inr show ?thesis
      by (auto simp: checked_evaluation_def read_def falsy_def sanitize_all_cases)
  qed (use Inr in \<open>auto simp: checked_evaluation_def read_def falsy_def\<close>)
qed

lemma checked_evaluation_valid: "checked_evaluation v = Inr pe \<Longrightarrow> responses_valid pe \<and> length (evaluations pe) = 6"
  by (auto simp: checked_evaluation_Inr responses_valid_def list_all_iff sanitized_valid)

lemma fallback_evaluation_valid:
  "responses_valid (fallback_evaluation i p criteria) \<and>
   length (evaluations (fallback_evaluation i p criteria)) = length criteria"
  by (simp add: fallback_evaluation_def responses_valid_def list_all_iff valid_response_def)

lemma evaluate_one_content:
  "r \<noteq> Invoke_failed \<Longrightarrow>
   evaluate_one r i p criteria =
     Inr (case r of
            Json v \<Rightarrow> (case checked_evaluation v of
                          Inr pe \<Rightarrow> pe
                        | Inl e \<Rightarrow> fallback_evaluation i p criteria)
          | _ \<Rightarrow> fallback_evaluation i p criteria)"
  by (cases r) (simp_all add: evaluate_one_def split: sum.splits)



lemma evaluate_one_length:
  "evaluate_one r i p criteria = Inr pe \<Longrightarrow> length criteria = 6 \<Longrightarrow> length (evaluations pe) = 6"
  using checked_evaluation_valid fallback_evaluation_valid
  by (cases r) (auto simp: evaluate_one_def split: sum.splits)


lemma evaluate_loop_returns:
  assumes "\<not> list_ex nullish criteria"
    and "\<forall>j<length ps. gw (Evaluate (i + j)) \<noteq> Invoke_failed"
  shows "\<exists>pes. evaluate_loop gw criteria i ps = (map Evaluate [i ..< i + length ps], Inr pes) \<and>
              length pes = length ps \<and>
              (\<forall>j<length ps. evaluate_one (gw (Evaluate (i + j))) (i + j) (ps ! j) criteria = Inr (pes ! j))"
  using assms(2)
proof (induction ps arbitrary: i)
  case Nil
  then show ?case by simp
next
  case (Cons p ps)
  have "gw (Evaluate i) \<noteq> Invoke_failed" using Cons.prems by force
  then obtain pe where pe: "evaluate_one (gw (Evaluate i)) i p criteria = Inr pe"
    using evaluate_one_content by blast
  have "\<forall>j<length ps. gw (Evaluate (Suc i + j)) \<noteq> Invoke_failed"
    using Cons.prems by force
  with Cons.IH [of "Suc i"] obtain pes where
    pes: "evaluate_loop gw criteria (Suc i) ps = (map Evaluate [Suc i ..< Suc i + length ps], Inr pes)"
      "length pes = length ps"
      "\<forall>j<length ps. evaluate_one (gw (Evaluate (Suc i + j))) (Suc i + j) (ps ! j) criteria = Inr (pes ! j)"
    by auto
  have each: "\<forall>j<length (p # ps). evaluate_one (gw (Evaluate (i + j))) (i + j) ((p # ps) ! j) criteria = Inr ((pe # pes) ! j)"
  proof (intro allI impI)
    fix j assume "j < length (p # ps)"
    then show "evaluate_one (gw (Evaluate (i + j))) (i + j) ((p # ps) ! j) criteria = Inr ((pe # pes) ! j)"
      using pe pes(3) by (cases j) auto
  qed
  define cs where "cs = map Evaluate [Suc i ..< Suc i + length ps]"
  have "evaluate_loop gw criteria i (p # ps) = (Evaluate i # cs, Inr (pe # pes))"
    using pe pes(1) assms(1) unfolding cs_def [symmetric] by simp
  moreover have "map Evaluate [i ..< i + length (p # ps)] = Evaluate i # cs"
    unfolding cs_def using upt_shift [of i "length ps"] by (simp del: upt_Suc)
  ultimately have "evaluate_loop gw criteria i (p # ps) = (map Evaluate [i ..< i + length (p # ps)], Inr (pe # pes))"
    by simp
  with pes(2) each show ?case by (intro exI [of _ "pe # pes"]) simp
qed


lemma agent4_returns:
  assumes "\<not> list_ex nullish (generatedCriteria state)"
    and "\<forall>i<length (inputPapers state). gw (Evaluate i) \<noteq> Invoke_failed"
  shows "\<exists>pes. agent4_evaluatePapers gw state =
            Returned (called (map Evaluate [0 ..< length (inputPapers state)]) state
                        \<lparr>evaluationResults := pes, currentStep := ''Papers Evaluated''\<rparr>) \<and>
          length pes = length (inputPapers state) \<and>
          (\<forall>i<length (inputPapers state).
             evaluate_one (gw (Evaluate i)) i (inputPapers state ! i) (generatedCriteria state) = Inr (pes ! i))"
proof -
  from evaluate_loop_returns [OF assms(1), of "inputPapers state" gw 0] assms(2) obtain pes where
    pes: "evaluate_loop gw (generatedCriteria state) 0 (inputPapers state) =
            (map Evaluate [0 ..< length (inputPapers state)], Inr pes)"
      "length pes = length (inputPapers state)"
      "\<forall>j<length (inputPapers state).
         evaluate_one (gw (Evaluate j)) j (inputPapers state ! j) (generatedCriteria state) = Inr (pes ! j)"
    by auto
  then show ?thesis by (intro exI [of _ pes]) (simp add: agent4_evaluatePapers_def)
qed









section \<open>Statistics\<close>
















section \<open>Whole runs\<close>

lemma join_cong:
  "inputPapers s = inputPapers t \<Longrightarrow> extractedMetadata s = extractedMetadata t \<Longrightarrow> join s = join t"
  by (rule ext) (simp add: join_def)

text \<open>A run in which no gateway call fails and the criteria reply is an array of six reaches the end.\<close>

lemma run_completes:
  assumes "length papers = 50" "\<not> list_ex missing_fields papers"
    and "\<forall>i<50. gw (Extract i) \<noteq> Invoke_failed"
    and "gw Generate = Json (Arr cs props)" "length cs = 6" "\<not> list_ex nullish cs"
    and "\<forall>i<50. gw (Evaluate i) \<noteq> Invoke_failed"
  shows "\<exists>final ms pes.
           workflow_invoke gw (WorkflowState\<lparr>inputPapers := papers\<rparr>) = Returned final \<and>
           inputPapers final = papers \<and> extractedMetadata final = ms \<and>
           generatedCriteria final = cs \<and> evaluationResults final = pes \<and>
           criteriaStats final = foldl count_paper (init_stats cs) pes \<and>
           finalSelectedPapers final = map (join final) (select_top (map score_paper pes)) \<and>
           currentStep final = ''Top 10 Selected'' \<and> errors final = [] \<and>
           gateway_calls final = map Extract [0 ..< 50] @ Generate # map Evaluate [0 ..< 50] \<and>
           length ms = 50 \<and> length pes = 50 \<and>
           (\<forall>i<50. extract_one (gw (Extract i)) i (papers ! i) = Inr (ms ! i)) \<and>
           (\<forall>i<50. evaluate_one (gw (Evaluate i)) i (papers ! i) cs = Inr (pes ! i))"
proof -
  from workflow_through_agent2 [OF assms(1-3)] obtain ms where
    2: "and_then (agent1_processInput (WorkflowState\<lparr>inputPapers := papers\<rparr>)) (agent2_extractMetadata gw) =
            Returned (WorkflowState\<lparr>inputPapers := papers, extractedMetadata := ms,
                        currentStep := ''Metadata Extracted'', gateway_calls := map Extract [0 ..< 50]\<rparr>)"
    and ms: "length ms = 50" "\<not> list_ex nullish ms"
      "\<forall>i<50. extract_one (gw (Extract i)) i (papers ! i) = Inr (ms ! i)"
    by blast
  define s2 where "s2 = WorkflowState\<lparr>inputPapers := papers, extractedMetadata := ms,
                        currentStep := ''Metadata Extracted'', gateway_calls := map Extract [0 ..< 50]\<rparr>"
  define s3 where "s3 = called [Generate] s2\<lparr>generatedCriteria := cs, currentStep := ''Criteria Generated''\<rparr>"
  have 3: "agent3_generateCriteria gw s2 = Returned s3"
    unfolding s3_def using ms(2) assms(4,5) by (intro agent3_returns) (simp_all add: s2_def)
  have "\<not> list_ex nullish (generatedCriteria s3)" using assms(6) by (simp add: s3_def)
  moreover have "\<forall>i<length (inputPapers s3). gw (Evaluate i) \<noteq> Invoke_failed"
    using assms(1,7) by (simp add: s3_def s2_def called_def)
  ultimately obtain pes where
    4: "agent4_evaluatePapers gw s3 =
            Returned (called (map Evaluate [0 ..< length (inputPapers s3)]) s3
                        \<lparr>evaluationResults := pes, currentStep := ''Papers Evaluated''\<rparr>)"
    and pes: "length pes = length (inputPapers s3)"
      "\<forall>i<length (inputPapers s3).
         evaluate_one (gw (Evaluate i)) i (inputPapers s3 ! i) (generatedCriteria s3) = Inr (pes ! i)"
    using agent4_returns [of s3 gw] by blast
  define s4 where "s4 = called (map Evaluate [0 ..< length (inputPapers s3)]) s3
                        \<lparr>evaluationResults := pes, currentStep := ''Papers Evaluated''\<rparr>"
  define s5 where "s5 = s4\<lparr>criteriaStats :=
                    foldl count_paper (init_stats (generatedCriteria s4)) (evaluationResults s4),
                 currentStep := ''Statistics Generated''\<rparr>"
  define s6 where "s6 = s5\<lparr>finalSelectedPapers :=
                 map (join s5) (select_top (map score_paper (evaluationResults s5))),
              currentStep := ''Top 10 Selected''\<rparr>"
  have fields3: "inputPapers s3 = papers" "generatedCriteria s3 = cs" "extractedMetadata s3 = ms"
    "errors s3 = []" "gateway_calls s3 = map Extract [0 ..< 50] @ [Generate]"
    by (simp_all add: s3_def s2_def called_def WorkflowState_def)
  have fields4: "inputPapers s4 = papers" "generatedCriteria s4 = cs" "extractedMetadata s4 = ms"
    "errors s4 = []" "evaluationResults s4 = pes"
    "gateway_calls s4 = map Extract [0 ..< 50] @ Generate # map Evaluate [0 ..< 50]"
    using assms(1) by (simp_all add: s4_def called_def fields3)
  have 5: "agent5_generateStats s4 = Returned s5"
    using assms(6) by (simp add: agent5_generateStats_def s5_def fields4)
  have 6: "agent6_selectTopPapers s5 = Returned s6"
    by (simp add: agent6_selectTopPapers_def s6_def)
  have w: "workflow_invoke gw (WorkflowState\<lparr>inputPapers := papers\<rparr>) = Returned s6"
    using 2 3 4 5 6 by (simp add: workflow_invoke_def and_then_def s2_def [symmetric] s4_def [symmetric])
  have j: "join s5 = join s6" by (rule join_cong) (simp_all add: s6_def)
  have fields6: "inputPapers s6 = papers" "extractedMetadata s6 = ms" "generatedCriteria s6 = cs"
    "evaluationResults s6 = pes" "criteriaStats s6 = foldl count_paper (init_stats cs) pes"
    "currentStep s6 = ''Top 10 Selected''" "errors s6 = []"
    "gateway_calls s6 = map Extract [0 ..< 50] @ Generate # map Evaluate [0 ..< 50]"
    by (simp_all add: s6_def s5_def fields4)
  have sel: "finalSelectedPapers s6 = map (join s6) (select_top (map score_paper pes))"
    unfolding j [symmetric] by (simp add: s6_def s5_def fields4)
  have e: "\<forall>i<50. evaluate_one (gw (Evaluate i)) i (papers ! i) cs = Inr (pes ! i)"
    using pes(2) assms(1) by (simp add: fields3)
  have l: "length pes = 50" using pes(1) assms(1) by (simp add: fields3)
  from w fields6 sel ms(1,3) e l show ?thesis by blast
qed

lemma six_criteria_fine: "length six_criteria = 6" "\<not> list_ex nullish six_criteria"
  by (simp_all add: six_criteria_def nullish_def)

text \<open>
  Claim C5 on the code. For a document whose metadata reply cannot be decoded, the
  record that agent 2 stores has the document's own title, the first 200 characters of
  its abstract as summary, the sentinel in six fields and empty author and keyword
  lists, but no \<^verbatim>\<open>sample_size\<close> and no \<^verbatim>\<open>limitations\<close>: the two fields of the schema
  that the fallback object of lines 105 to 118 leaves out read as \<^verbatim>\<open>undefined\<close>, not
  as the sentinel. The evaluation stored for an undecodable reply rates the six criteria
  Maybe with the fixed reasoning, and a run in which no metadata and no evaluation
  reply can be decoded still ends with 10 selected papers.
\<close>

theorem fallback_metadata_omits_two_fields:
  "(\<exists>m. extract_one Not_json 0 long_paper = Inr m \<and>
     read m ''paper_id'' = Num 1 \<and> read m ''original_index'' = Num 0 \<and>
     read m ''title'' = Str ''A long study'' \<and>
     read m ''abstract_summary'' = Str (replicate 200 CHR ''a'') \<and>
     read m ''research_domain'' = Str ''Not specified'' \<and>
     read m ''methodology'' = Str ''Not specified'' \<and>
     read m ''study_type'' = Str ''Not specified'' \<and>
     read m ''main_findings'' = Str ''Not specified'' \<and>
     read m ''journal'' = Str ''Not specified'' \<and>
     read m ''year'' = Str ''Not specified'' \<and>
     read m ''keywords'' = Arr [] [] \<and> read m ''authors'' = Arr [] [] \<and>
     read m ''sample_size'' = Undefined \<and> read m ''limitations'' = Undefined) \<and>
   (\<exists>pe. evaluate_one Not_json 0 long_paper six_criteria = Inr pe \<and>
     map response (evaluations pe) =
       [Str ''Maybe'', Str ''Maybe'', Str ''Maybe'', Str ''Maybe'', Str ''Maybe'', Str ''Maybe''] \<and>
     set (map reasoning (evaluations pe)) = {Str ''Evaluation failed, marked as Maybe''}) \<and>
   (\<exists>body. screen_papers unreadable (replicate 50 long_paper) = Success body \<and>
     selected_papers_count body = 10)"
proof -
  have m: "\<exists>m. extract_one Not_json 0 long_paper = Inr m \<and>
     read m ''paper_id'' = Num 1 \<and> read m ''original_index'' = Num 0 \<and>
     read m ''title'' = Str ''A long study'' \<and>
     read m ''abstract_summary'' = Str (replicate 200 CHR ''a'') \<and>
     read m ''research_domain'' = Str ''Not specified'' \<and>
     read m ''methodology'' = Str ''Not specified'' \<and>
     read m ''study_type'' = Str ''Not specified'' \<and>
     read m ''main_findings'' = Str ''Not specified'' \<and>
     read m ''journal'' = Str ''Not specified'' \<and>
     read m ''year'' = Str ''Not specified'' \<and>
     read m ''keywords'' = Arr [] [] \<and> read m ''authors'' = Arr [] [] \<and>
     read m ''sample_size'' = Undefined \<and> read m ''limitations'' = Undefined"
    by (simp add: extract_one_def fallback_metadata_def long_paper_def read_def lookup_def opt_str_def)
  have e: "\<exists>pe. evaluate_one Not_json 0 long_paper six_criteria = Inr pe \<and>
     map response (evaluations pe) =
       [Str ''Maybe'', Str ''Maybe'', Str ''Maybe'', Str ''Maybe'', Str ''Maybe'', Str ''Maybe''] \<and>
     set (map reasoning (evaluations pe)) = {Str ''Evaluation failed, marked as Maybe''}"
    by (simp add: evaluate_one_def fallback_evaluation_def six_criteria_def)
  have "\<not> missing_fields long_paper" by (simp add: missing_fields_iff long_paper_def)
  then have v: "length (replicate 50 long_paper) = 50" "\<not> list_ex missing_fields (replicate 50 long_paper)"
    by (simp_all add: list_ex_iff)
  have g: "\<forall>i<50. unreadable (Extract i) \<noteq> Invoke_failed"
    "unreadable Generate = Json (Arr six_criteria [])"
    "\<forall>i<50. unreadable (Evaluate i) \<noteq> Invoke_failed"
    by (simp_all add: unreadable_def)
  from run_completes [OF v g(1,2) six_criteria_fine g(3)]
  obtain final pes where
    w: "workflow_invoke unreadable (WorkflowState\<lparr>inputPapers := replicate 50 long_paper\<rparr>) = Returned final"
    and f: "finalSelectedPapers final = map (join final) (select_top (map score_paper pes))"
    and len: "length pes = 50"
    by blast
  have "length (finalSelectedPapers final) = 10" by (simp add: f length_select_top len)
  with w have r: "\<exists>body. screen_papers unreadable (replicate 50 long_paper) = Success body \<and>
     selected_papers_count body = 10"
    by (simp add: screen_papers_def)
  from m e r show ?thesis by (intro conjI)
qed

lemma yes_reply_checked:
  "checked_evaluation (yes_reply n) =
     Inr \<lparr> pe_paper_id = Num n, pe_title = Str ''t'',
           evaluations =
             map (\<lambda>c. \<lparr> criterion_id = Num c, response = Str ''Yes'', reasoning = Str ''r'' \<rparr>)
               [1, 2, 3, 4, 5, 6] \<rparr>"
  by (simp add: checked_evaluation_def yes_reply_def lookup_def falsy_def read_def sanitize_def
        valid_response_def)

lemma numbered_papers_valid: "length numbered_papers = 50" "\<not> list_ex missing_fields numbered_papers"
  by (simp_all add: numbered_papers_def list_ex_iff missing_fields_iff)

text \<open>
  Claim C6 on the code. Agent 4 stores a decoded evaluation with the \<^verbatim>\<open>paper_id\<close> the
  gateway wrote, and agent 6 joins by that number. In a run of 50 documents
  \<open>Paper 1\<close> to \<open>Paper 50\<close> where every evaluation is six Yes and the reply for the first
  document says \<^verbatim>\<open>paper_id\<close> 7, the record ranked first is the first document's
  evaluation, carries \<^verbatim>\<open>paper_id\<close> 7 and is returned with the metadata of \<open>Paper 7\<close>, as
  is the record ranked seventh.
\<close>

theorem selected_record_joined_with_other_document:
  "\<exists>body. screen_papers mislabelling numbered_papers = Success body \<and>
     selected_papers_count body = 10 \<and>
     rank (selected_papers body ! 0) = 1 \<and>
     paper_id (selected_papers body ! 0) = Num 7 \<and>
     read (out_metadata (selected_papers body ! 0)) ''title'' = Str ''Paper 7'' \<and>
     rank (selected_papers body ! 6) = 7 \<and>
     paper_id (selected_papers body ! 6) = Num 7 \<and>
     read (out_metadata (selected_papers body ! 6)) ''title'' = Str ''Paper 7''"
proof -
  have g: "\<forall>i<50. mislabelling (Extract i) \<noteq> Invoke_failed"
    "mislabelling Generate = Json (Arr six_criteria [])"
    "\<forall>i<50. mislabelling (Evaluate i) \<noteq> Invoke_failed"
    by (simp_all add: mislabelling_def)
  from run_completes [OF numbered_papers_valid g(1,2) six_criteria_fine g(3)]
  obtain final ms pes where
    w: "workflow_invoke mislabelling (WorkflowState\<lparr>inputPapers := numbered_papers\<rparr>) = Returned final"
    and f: "inputPapers final = numbered_papers" "extractedMetadata final = ms"
      "finalSelectedPapers final = map (join final) (select_top (map score_paper pes))"
    and len: "length ms = 50" "length pes = 50"
    and ms: "\<forall>i<50. extract_one (mislabelling (Extract i)) i (numbered_papers ! i) = Inr (ms ! i)"
    and pes: "\<forall>i<50. evaluate_one (mislabelling (Evaluate i)) i (numbered_papers ! i) six_criteria = Inr (pes ! i)"
    by blast
  have pe: "pes ! i = \<lparr> pe_paper_id = Num (if i = 0 then 7 else int i + 1), pe_title = Str ''t'',
           evaluations =
             map (\<lambda>c. \<lparr> criterion_id = Num c, response = Str ''Yes'', reasoning = Str ''r'' \<rparr>)
               [1, 2, 3, 4, 5, 6] \<rparr>" if "i < 50" for i
    using pes [rule_format, OF that] by (simp add: mislabelling_def evaluate_one_def yes_reply_checked)
  have "eligibility_score p = 1060 \<and> is_eligible p" if "p \<in> set (map score_paper pes)" for p
  proof -
    from that len(2) have "\<exists>i. i < 50 \<and> p = score_paper (pes ! i)"
      by (auto simp: in_set_conv_nth)
    then obtain i where i: "i < 50" "p = score_paper (pes ! i)" by blast
    have "list_all (\<lambda>e. response e = Str ''Yes'') (evaluations (pes ! i))" "length (evaluations (pes ! i)) = 6"
      using pe [OF i(1)] by simp_all
    then show ?thesis unfolding i(2) by (rule all_yes_score)
  qed
  then have "select_top (map score_paper pes) = take 10 (map score_paper pes)"
    by (rule select_top_all_equal)
  then have sel: "finalSelectedPapers final = map (\<lambda>pe. join final (score_paper pe)) (take 10 pes)"
    by (simp add: f(3) take_map)
  have n: "length (finalSelectedPapers final) = 10" by (simp add: sel len)
  have at: "finalSelectedPapers final ! i = join final (score_paper (pes ! i))" if "i < 10" for i
    using that len by (simp add: sel)
  have m6: "ms ! 6 = Obj
            [(''paper_id'', Num 7),
             (''original_index'', Num 6),
             (''title'', Str ''Paper 7''),
             (''abstract_summary'', Str ''We study.''),
             (''research_domain'', Str ''Not specified''),
             (''methodology'', Str ''Not specified''),
             (''study_type'', Str ''Not specified''),
             (''main_findings'', Str ''Not specified''),
             (''keywords'', Arr [] []),
             (''authors'', Arr [] []),
             (''journal'', Str ''Not specified''),
             (''year'', Str ''Not specified'')]"
    using ms [rule_format, of 6]
    by (simp add: mislabelling_def extract_one_def fallback_metadata_def numbered_papers_def opt_str_def
          show_nat.simps digit_of_def)
  have seven: "sp_paper_id (score_paper (pes ! i)) = Num 7 \<and> original_index (score_paper (pes ! i)) = Some 6"
    if "i = 0 \<or> i = 6" for i
    using that pe [of i] by (auto simp: score_paper_def minus_one_def ToNumber_def split: prod.splits)
  have joined: "sp_paper_id (sel_scored (finalSelectedPapers final ! i)) = Num 7 \<and>
                metadata (finalSelectedPapers final ! i) = ms ! 6" if "i = 0 \<or> i = 6" for i
    using that seven [of i] at [of i] len by (auto simp: join_def at_index_def f(2))
  define body where "body =
            \<lparr> workflow_steps = currentStep final,
              input_papers_count = length (inputPapers final),
              generated_criteria = generatedCriteria final,
              criteria_statistics = criteriaStats final,
              selected_papers_count = length (finalSelectedPapers final),
              selected_papers =
                map (\<lambda>(i, s). present i s)
                  (zip [0 ..< length (finalSelectedPapers final)] (finalSelectedPapers final)),
              out_errors = errors final \<rparr>"
  have s: "screen_papers mislabelling numbered_papers = Success body"
    using w by (simp add: screen_papers_def body_def)
  have out: "selected_papers body ! i = present i (finalSelectedPapers final ! i)" if "i < 10" for i
    using that n by (simp add: body_def)
  have "selected_papers_count body = 10" by (simp add: body_def n)
  moreover have "rank (selected_papers body ! 0) = 1 \<and> paper_id (selected_papers body ! 0) = Num 7 \<and>
     read (out_metadata (selected_papers body ! 0)) ''title'' = Str ''Paper 7''"
    using out [of 0] joined [of 0] by (simp add: present_def m6 read_def lookup_def)
  moreover have "rank (selected_papers body ! 6) = 7 \<and> paper_id (selected_papers body ! 6) = Num 7 \<and>
     read (out_metadata (selected_papers body ! 6)) ''title'' = Str ''Paper 7''"
    using out [of 6] joined [of 6] by (simp add: present_def m6 read_def lookup_def)
  ultimately show ?thesis using s by blast
qed

end
